theory Spec2Isabelle
  imports Main "HOL-Library.Sublist" "HOL-Library.Char_ord" "HOL-Library.List_Lexorder"
    "HOL-Library.Multiset"
begin

section \<open>The SQLite data converter of gnn\_reco, embedded\<close>

text \<open>
  The theory follows \<^verbatim>\<open>src/gnn_reco/data/sqlite_dataconverter.py\<close>. Exceptions are values
  of \<open>py_error\<close>; a function that can raise returns a sum whose left side is the exception.
  Where an exception leaves files or tables behind, the left side carries them too.
\<close>

datatype py_error =
    IndexError | KeyError | ValueError | StopIteration | UnboundLocalError
  | OSError | ExtractorError | DatabaseError | OperationalError | IntegrityError

subsection \<open>The numpy calls of the id allocation\<close>

text \<open>
  \<^verbatim>\<open>np.arange(start, stop, 1)\<close>: the integers from \<open>start\<close> up to, not including, \<open>stop\<close>.
\<close>

definition arange :: "int \<Rightarrow> int \<Rightarrow> int list" where
  "arange start stop = map (\<lambda>k. start + int k) [0..<nat (stop - start)]"

text \<open>
  \<^verbatim>\<open>np.array_split(ary, n)\<close> for a one-dimensional array, as numpy computes it:
  \<^verbatim>\<open>
  Neach_section, extras = divmod(Ntotal, Nsections)
  section_sizes = [0] + extras * [Neach_section+1] + (Nsections-extras) * [Neach_section]
  div_points = array(section_sizes).cumsum()
  for i in range(Nsections):
      st = div_points[i]; end = div_points[i + 1]
      sub_arys.append(ary[st:end])
  \<close>
  with \<^verbatim>\<open>ValueError\<close> when the number of sections is not positive.
\<close>

fun cumsum_from :: "nat \<Rightarrow> nat list \<Rightarrow> nat list" where
  "cumsum_from acc [] = []"
| "cumsum_from acc (x # xs) = (acc + x) # cumsum_from (acc + x) xs"

definition cumsum :: "nat list \<Rightarrow> nat list" where
  "cumsum xs = cumsum_from 0 xs"

definition slice :: "'a list \<Rightarrow> nat \<Rightarrow> nat \<Rightarrow> 'a list" where
  "slice ary st en = take (en - st) (drop st ary)"

definition section_sizes :: "nat \<Rightarrow> nat \<Rightarrow> nat list" where
  "section_sizes Ntotal Nsections =
     (let Neach_section = Ntotal div Nsections; extras = Ntotal mod Nsections
      in [0] @ replicate extras (Neach_section + 1) @ replicate (Nsections - extras) Neach_section)"

definition array_split :: "'a list \<Rightarrow> int \<Rightarrow> py_error + 'a list list" where
  "array_split ary n =
     (if n \<le> 0 then Inl ValueError
      else let Nsections = nat n;
               div_points = cumsum (section_sizes (length ary) Nsections)
           in Inr (map (\<lambda>i. slice ary (div_points ! i) (div_points ! (i + 1))) [0..<Nsections]))"

text \<open>The bound of the id space and the allocation of \<^verbatim>\<open>_processfiles\<close> (line 321).\<close>

definition id_space_bound :: int where
  "id_space_bound = 99999999"

definition event_nos :: "int \<Rightarrow> py_error + int list list" where
  "event_nos workers = array_split (arange 0 id_space_bound) workers"

text \<open>
  The closed form of the division points, used to state what the allocation yields:
  the first \<open>Ntotal mod Nsections\<close> sections have one element more than the others.
\<close>

definition div_point :: "nat \<Rightarrow> nat \<Rightarrow> nat \<Rightarrow> nat" where
  "div_point Ntotal Nsections i = i * (Ntotal div Nsections) + min i (Ntotal mod Nsections)"

subsection \<open>Strings and names\<close>

text \<open>\<^verbatim>\<open>sub in s\<close> on strings, and \<^verbatim>\<open>s.lower()\<close> on the ASCII letters.\<close>

fun contains :: "string \<Rightarrow> string \<Rightarrow> bool" where
  "contains sub [] = (sub = [])"
| "contains sub (c # cs) = (prefix sub (c # cs) \<or> contains sub cs)"

definition lower_char :: "char \<Rightarrow> char" where
  "lower_char c =
     (case map_of (zip ''ABCDEFGHIJKLMNOPQRSTUVWXYZ'' ''abcdefghijklmnopqrstuvwxyz'') c of
        Some l \<Rightarrow> l
      | None \<Rightarrow> c)"

definition lower :: "string \<Rightarrow> string" where
  "lower s = map lower_char s"

text \<open>
  The scripts of \<^verbatim>\<open>_create_table\<close> and \<^verbatim>\<open>_attach_index\<close>, and the queries of
  \<^verbatim>\<open>_extract_column_names\<close> and \<^verbatim>\<open>_extract_everything\<close>, paste names into SQL text without
  quotes. SQLite compares names without regard to the case of the ASCII letters, and
  reads a pasted name as that name when it is a plain name: ASCII letters,
  digits and underscores, the first not a digit, and not one of its keywords. The model
  takes every other name to be refused, as SQLite refuses a reserved word such as
  \<^verbatim>\<open>order\<close>, an empty name or a name that starts with a digit; what SQLite makes of the
  remaining ones (it accepts some keywords as names, and reads a name with a blank or a
  comma as more than a name) is outside the model, and no statement below is about them.
\<close>

definition sql_keywords :: "string list" where
  "sql_keywords =
    [''abort'', ''action'', ''add'', ''after'', ''all'', ''alter'', ''always'',
     ''analyze'', ''and'', ''as'', ''asc'', ''attach'', ''autoincrement'', ''before'',
     ''begin'', ''between'', ''by'', ''cascade'', ''case'', ''cast'', ''check'',
     ''collate'', ''column'', ''commit'', ''conflict'', ''constraint'', ''create'',
     ''cross'', ''current'', ''current_date'', ''current_time'', ''current_timestamp'',
     ''database'', ''default'', ''deferrable'', ''deferred'', ''delete'', ''desc'',
     ''detach'', ''distinct'', ''do'', ''drop'', ''each'', ''else'', ''end'', ''escape'',
     ''except'', ''exclude'', ''exclusive'', ''exists'', ''explain'', ''fail'', ''filter'',
     ''first'', ''following'', ''for'', ''foreign'', ''from'', ''full'', ''generated'',
     ''glob'', ''group'', ''groups'', ''having'', ''if'', ''ignore'', ''immediate'',
     ''in'', ''index'', ''indexed'', ''initially'', ''inner'', ''insert'', ''instead'',
     ''intersect'', ''into'', ''is'', ''isnull'', ''join'', ''key'', ''last'', ''left'',
     ''like'', ''limit'', ''match'', ''materialized'', ''natural'', ''no'', ''not'',
     ''nothing'', ''notnull'', ''null'', ''nulls'', ''of'', ''offset'', ''on'', ''or'',
     ''order'', ''others'', ''outer'', ''over'', ''partition'', ''plan'', ''pragma'',
     ''preceding'', ''primary'', ''query'', ''raise'', ''range'', ''recursive'',
     ''references'', ''regexp'', ''reindex'', ''release'', ''rename'', ''replace'',
     ''restrict'', ''returning'', ''right'', ''rollback'', ''row'', ''rows'',
     ''savepoint'', ''select'', ''set'', ''table'', ''temp'', ''temporary'', ''then'',
     ''ties'', ''to'', ''transaction'', ''trigger'', ''unbounded'', ''union'', ''unique'',
     ''update'', ''using'', ''vacuum'', ''values'', ''view'', ''virtual'', ''when'',
     ''where'', ''window'', ''with'', ''within'', ''without'']"

definition id_start :: "char \<Rightarrow> bool" where
  "id_start c = (c \<in> set ''abcdefghijklmnopqrstuvwxyzABCDEFGHIJKLMNOPQRSTUVWXYZ_'')"

definition id_char :: "char \<Rightarrow> bool" where
  "id_char c = (id_start c \<or> c \<in> set ''0123456789'')"

definition plain_name :: "string \<Rightarrow> bool" where
  "plain_name n =
     (n \<noteq> [] \<and> id_start (hd n) \<and> list_all id_char n \<and> lower n \<notin> set sql_keywords)"

text \<open>SQLite keeps the table names that start with \<^verbatim>\<open>sqlite_\<close> for itself.\<close>

definition table_name_ok :: "string \<Rightarrow> bool" where
  "table_name_ok n = (plain_name n \<and> \<not> prefix ''sqlite_'' (lower n))"

subsection \<open>Extractions and data frames\<close>

text \<open>
  A cell of a table is a Python scalar. The pipeline never computes with the extracted
  quantities, so every scalar other than \<^verbatim>\<open>None\<close> and the integers is carried as text.
\<close>

datatype scalar = SNone | SInt int | SOther string

text \<open>
  The value under one key of an extraction: one scalar, or a sequence with one entry per row.
\<close>

datatype pyval = Scalar scalar | Values "scalar list"

text \<open>An extraction is a Python dict: keys in insertion order.\<close>

type_synonym extraction = "(string \<times> pyval) list"

type_synonym row = "(string \<times> scalar) list"

record dataframe =
  columns :: "string list"
  rows :: "row list"

text \<open>\<^verbatim>\<open>pd.DataFrame()\<close> and \<^verbatim>\<open>len(df)\<close>.\<close>

definition DataFrame_empty :: dataframe where
  "DataFrame_empty = \<lparr>columns = [], rows = []\<rparr>"

definition len :: "dataframe \<Rightarrow> nat" where
  "len df = length (rows df)"

text \<open>
  \<^verbatim>\<open>pd.DataFrame(extraction.values()).T\<close> has one row when the values are scalars, and as many
  rows as the longest value when they are sequences (shorter ones are padded); an empty
  dict gives no row. A dict that mixes scalars and sequences is not what the extractor
  returns; the model treats a scalar as a sequence of length one there.
\<close>

fun height :: "pyval \<Rightarrow> nat" where
  "height (Scalar s) = 1"
| "height (Values xs) = length xs"

definition nrows :: "extraction \<Rightarrow> nat" where
  "nrows extraction = fold max (map (height \<circ> snd) extraction) 0"

fun cell :: "pyval \<Rightarrow> nat \<Rightarrow> scalar" where
  "cell (Scalar s) i = (if i = 0 then s else SNone)"
| "cell (Values xs) i = (if i < length xs then xs ! i else SNone)"

text \<open>\<^verbatim>\<open>out[key] = value\<close> on one row: the column is overwritten, or added last.\<close>

fun set_cell :: "string \<Rightarrow> scalar \<Rightarrow> row \<Rightarrow> row" where
  "set_cell k v [] = [(k, v)]"
| "set_cell k v ((k', v') # r) = (if k' = k then (k, v) # r else (k', v') # set_cell k v r)"

text \<open>
  \<^verbatim>\<open>apply_event_no\<close> (lines 16-30). \<^verbatim>\<open>event_no_list[event_counter]\<close> raises
  \<^verbatim>\<open>IndexError\<close> when the counter has run past the allocated ids; the counter is never
  negative.
\<close>

definition apply_event_no :: "extraction \<Rightarrow> int list \<Rightarrow> nat \<Rightarrow> py_error + dataframe" where
  "apply_event_no extraction event_no_list event_counter =
     (let keys = map fst extraction;
          out = map (\<lambda>i. map (\<lambda>(k, v). (k, cell v i)) extraction) [0..<nrows extraction]
      in if event_counter < length event_no_list
         then Inr \<lparr>columns = (if ''event_no'' \<in> set keys then keys else keys @ [''event_no'']),
                   rows = map (set_cell ''event_no'' (SInt (event_no_list ! event_counter))) out\<rparr>
         else Inl IndexError)"

text \<open>
  \<^verbatim>\<open>a.append(b, ignore_index = True, sort = True)\<close>: the rows of \<open>a\<close>, then those of \<open>b\<close>,
  over the sorted union of the columns.
\<close>

definition df_append :: "dataframe \<Rightarrow> dataframe \<Rightarrow> dataframe" where
  "df_append a b = \<lparr>columns = sort (remdups (columns a @ columns b)), rows = rows a @ rows b\<rparr>"

text \<open>
  \<^verbatim>\<open>df.to_sql(name, engine, index = False, if_exists = 'append')\<close> creates the table when
  the database has none of that name, with one quoted column for each column of the
  frame. SQLite refuses a table without a column, and a table with two columns of the same
  name.
\<close>

definition creatable :: "dataframe \<Rightarrow> bool" where
  "creatable df = (columns df \<noteq> [] \<and> distinct (map lower (columns df)))"

text \<open>\<^verbatim>\<open>isempty\<close> (lines 190-194); \<^verbatim>\<open>features['dom_x']\<close> raises when the key is missing.\<close>

definition isempty :: "extraction \<Rightarrow> py_error + bool" where
  "isempty features =
     (case map_of features ''dom_x'' of
        None \<Rightarrow> Inl KeyError
      | Some v \<Rightarrow> if v \<noteq> Scalar SNone then Inr False else Inr True)"

text \<open>The event number of a row, when it has one.\<close>

definition event_no_of :: "row \<Rightarrow> int option" where
  "event_no_of r = (case map_of r ''event_no'' of Some (SInt n) \<Rightarrow> Some n | _ \<Rightarrow> None)"

subsection \<open>The extraction worker\<close>

text \<open>\<^verbatim>\<open>'%s' % n\<close> for a natural number: its decimal digits.\<close>

definition digit_char :: "nat \<Rightarrow> char" where
  "digit_char d = ''0123456789'' ! d"

fun str_nat :: "nat \<Rightarrow> string" where
  "str_nat n = (if n < 10 then [digit_char n] else str_nat (n div 10) @ [digit_char (n mod 10)])"

declare str_nat.simps [simp del]

text \<open>
  A temporary database: the truth table, the RetroReco table and the pulsemap table, each
  when the file has it, and the name the pulsemap table was written under. The pulsemap
  name is taken to differ from \<^verbatim>\<open>truth\<close> and \<^verbatim>\<open>RetroReco\<close>, also in the case of its letters.
\<close>

record shard =
  truth_table :: "dataframe option"
  retro_table :: "dataframe option"
  pulsemap_name :: string
  pulsemap_table :: "dataframe option"

type_synonym shard_file = "string \<times> shard"

text \<open>The list unpacked at line 223.\<close>

record settings =
  input_files :: "string list"
  worker_id :: string
  gcd_files :: "string list"
  event_no_list :: "int list"
  mode :: string
  pulsemap :: string
  max_dict_size :: int
  db_name :: string
  outdir :: string

text \<open>
  Modelled from the spec: \<^verbatim>\<open>I3Extractor\<close> (module \<^verbatim>\<open>utils\<close>, called through
  \<^verbatim>\<open>process_frame\<close>) is not among the sources. Called on a frame it either raises or
  returns the three fragments: truth attributes, pulse-series attributes,
  auxiliary-reconstruction attributes. A frame carries that outcome.

  An opened event file is the sequence of the outcomes of its \<^verbatim>\<open>pop_physics\<close> calls while
  \<^verbatim>\<open>more()\<close> holds: the call raises, returns something false, or returns a frame. Each
  call is taken to consume one entry, so that the \<^verbatim>\<open>while\<close> loop ends with the file.
\<close>

datatype pop =
    PopRaises
  | PopFalse
  | PopFrame "py_error + extraction \<times> extraction \<times> extraction"

text \<open>
  The surroundings of a run. \<open>walk dir\<close> is \<^verbatim>\<open>next(os.walk(dir))\<close>: the directory, its
  folders and its files, or nothing when the walk is empty (\<^verbatim>\<open>next\<close> then raises
  \<^verbatim>\<open>StopIteration\<close>). \<open>df_sample\<close> is the random order in which \<^verbatim>\<open>df.sample(frac = 1)\<close>
  returns the rows of a frame, and \<open>listdir\<close> the order in which \<^verbatim>\<open>os.listdir\<close> returns the
  temporary files. \<^verbatim>\<open>load_geospatial_data\<close> (module \<^verbatim>\<open>utils\<close>) and \<^verbatim>\<open>dataio.I3File\<close> either
  raise or succeed; what the first returns is only handed on to the extractor.
\<close>

record world =
  walk :: "string \<Rightarrow> (string \<times> string list \<times> string list) option"
  df_sample :: "(string \<times> string) list \<Rightarrow> (string \<times> string) list"
  listdir :: "shard_file list \<Rightarrow> shard_file list"
  load_geospatial_data :: "string \<Rightarrow> py_error + unit"
  I3File :: "string \<Rightarrow> py_error + pop list"

text \<open>The local variables of \<^verbatim>\<open>parallel_extraction\<close>, and the files written so far.\<close>

record wstate =
  event_counter :: nat
  feature_big :: dataframe
  truth_big :: dataframe
  retro_big :: dataframe
  file_counter :: nat
  output_count :: nat
  written :: "shard_file list"

definition shard_path :: "string \<Rightarrow> string \<Rightarrow> string \<Rightarrow> nat \<Rightarrow> string" where
  "shard_path outdir' db_name' id' output_count' =
     outdir' @ ''/'' @ db_name' @ ''/tmp/worker-'' @ id' @ ''-'' @ str_nat output_count' @ ''.db''"

text \<open>
  \<^verbatim>\<open>save_to_sql\<close> (lines 268-275), on a path where no file is yet. The three tables are
  written one after the other; a write that raises leaves the file with the tables written
  before it, and that file is what the exception carries here.
\<close>

definition save_to_sql ::
  "dataframe \<Rightarrow> dataframe \<Rightarrow> dataframe \<Rightarrow> string \<Rightarrow> nat \<Rightarrow> string \<Rightarrow> string \<Rightarrow> string
     \<Rightarrow> py_error \<times> shard_file + shard_file"
where
  "save_to_sql feature_big' truth_big' retro_big' id' output_count' db_name' outdir' pulsemap' =
     (let path = shard_path outdir' db_name' id' output_count';
          file0 = \<lparr>truth_table = None, retro_table = None, pulsemap_name = pulsemap',
                   pulsemap_table = None\<rparr>
      in if \<not> creatable truth_big' then Inl (OperationalError, (path, file0))
         else let file1 = file0\<lparr>truth_table := Some truth_big'\<rparr> in
              if len retro_big' > 0 \<and> \<not> creatable retro_big'
              then Inl (OperationalError, (path, file1))
              else let file2 = (if len retro_big' > 0
                                then file1\<lparr>retro_table := Some retro_big'\<rparr>
                                else file1)
                   in if \<not> creatable feature_big' then Inl (OperationalError, (path, file2))
                      else Inr (path, file2\<lparr>pulsemap_table := Some feature_big'\<rparr>))"

text \<open>
  Lines 253-258 and 261-265: write the three buffers, reset them, count the file. When
  \<^verbatim>\<open>save_to_sql\<close> raises, the buffers are not reset and the exception leaves the worker.
\<close>

definition flush :: "settings \<Rightarrow> wstate \<Rightarrow> py_error \<times> shard_file list + wstate" where
  "flush st s =
     (case save_to_sql (feature_big s) (truth_big s) (retro_big s) (worker_id st)
             (output_count s) (db_name st) (outdir st) (pulsemap st) of
        Inl (e, file) \<Rightarrow> Inl (e, written s @ [file])
      | Inr file \<Rightarrow>
          Inr (s\<lparr>written := written s @ [file],
                 feature_big := DataFrame_empty,
                 truth_big := DataFrame_empty,
                 retro_big := DataFrame_empty,
                 output_count := output_count s + 1\<rparr>))"

text \<open>
  Lines 241-251: the body of \<^verbatim>\<open>if frame:\<close> up to the count, given what \<^verbatim>\<open>process_frame\<close>
  returned. The fragments are numbered and buffered.
\<close>

definition frame_body ::
  "settings \<Rightarrow> extraction \<times> extraction \<times> extraction \<Rightarrow> wstate \<Rightarrow> py_error + wstate"
where
  "frame_body st ex s =
     (case ex of (truths, features, retros) \<Rightarrow>
      case apply_event_no truths (event_no_list st) (event_counter s) of
        Inl e \<Rightarrow> Inl e
      | Inr truth \<Rightarrow>
          let s1 = s\<lparr>truth_big := df_append (truth_big s) truth\<rparr> in
          case (if length retros > 0
                then (case apply_event_no retros (event_no_list st) (event_counter s1) of
                        Inl e \<Rightarrow> Inl e
                      | Inr retro \<Rightarrow> Inr (s1\<lparr>retro_big := df_append (retro_big s1) retro\<rparr>))
                else Inr s1) of
            Inl e \<Rightarrow> Inl e
          | Inr s2 \<Rightarrow>
              case isempty features of
                Inl e \<Rightarrow> Inl e
              | Inr is_empty \<Rightarrow>
                  case (if is_empty = False
                        then (case apply_event_no features (event_no_list st) (event_counter s2) of
                                Inl e \<Rightarrow> Inl e
                              | Inr features' \<Rightarrow>
                                  Inr (s2\<lparr>feature_big := df_append (feature_big s2) features'\<rparr>))
                        else Inr s2) of
                    Inl e \<Rightarrow> Inl e
                  | Inr s3 \<Rightarrow> Inr (s3\<lparr>event_counter := event_counter s3 + 1\<rparr>))"

text \<open>Lines 252-258: the test that ends the body, and the flush of a full buffer.\<close>

definition flush_if_full :: "settings \<Rightarrow> wstate \<Rightarrow> py_error \<times> shard_file list + wstate" where
  "flush_if_full st s =
     (if int (len (truth_big s)) \<ge> max_dict_size st then flush st s else Inr s)"

text \<open>
  Lines 235-258: the \<^verbatim>\<open>while i3_file.more()\<close> loop. Only \<^verbatim>\<open>pop_physics\<close> is inside the
  \<^verbatim>\<open>try\<close>; an exception of \<^verbatim>\<open>process_frame\<close>, of the body or of the flush leaves the
  function, and the files written until then stay.
\<close>

fun frames_loop ::
  "settings \<Rightarrow> pop list \<Rightarrow> wstate \<Rightarrow> py_error \<times> shard_file list + wstate"
where
  "frames_loop st [] s = Inr s"
| "frames_loop st (PopRaises # ps) s = frames_loop st ps s"
| "frames_loop st (PopFalse # ps) s = frames_loop st ps s"
| "frames_loop st (PopFrame (Inl e) # ps) s = Inl (e, written s)"
| "frames_loop st (PopFrame (Inr ex) # ps) s =
     (case frame_body st ex s of
        Inl e \<Rightarrow> Inl (e, written s)
      | Inr s' \<Rightarrow>
          (case flush_if_full st s' of
             Inl e \<Rightarrow> Inl e
           | Inr s'' \<Rightarrow> frames_loop st ps s''))"

text \<open>Lines 231-259: the loop over the files of the worker.\<close>

fun files_loop ::
  "world \<Rightarrow> settings \<Rightarrow> nat list \<Rightarrow> wstate \<Rightarrow> py_error \<times> shard_file list + wstate"
where
  "files_loop w st [] s = Inr s"
| "files_loop w st (u # us) s =
     (if u \<ge> length (gcd_files st) then Inl (IndexError, written s)
      else case load_geospatial_data w (gcd_files st ! u) of
        Inl e \<Rightarrow> Inl (e, written s)
      | Inr calibration \<Rightarrow>
          if u \<ge> length (input_files st) then Inl (IndexError, written s)
          else case I3File w (input_files st ! u) of
            Inl e \<Rightarrow> Inl (e, written s)
          | Inr i3_file \<Rightarrow>
              case frames_loop st i3_file s of
                Inl e \<Rightarrow> Inl e
              | Inr s' \<Rightarrow> files_loop w st us (s'\<lparr>file_counter := file_counter s' + 1\<rparr>))"

definition initial_wstate :: wstate where
  "initial_wstate =
     \<lparr>event_counter = 0, feature_big = DataFrame_empty, truth_big = DataFrame_empty,
      retro_big = DataFrame_empty, file_counter = 0, output_count = 0, written = []\<rparr>"

text \<open>
  \<^verbatim>\<open>parallel_extraction\<close> (lines 217-266). It returns nothing; the model returns the final
  state, whose \<open>written\<close> field holds the files of the worker.
\<close>

definition parallel_extraction ::
  "world \<Rightarrow> settings \<Rightarrow> py_error \<times> shard_file list + wstate"
where
  "parallel_extraction w st =
     (case files_loop w st [0..<length (input_files st)] initial_wstate of
        Inl e \<Rightarrow> Inl e
      | Inr s \<Rightarrow> if len (truth_big s) > 0 then flush st s else Inr s)"

text \<open>The files a worker leaves behind, whether it returned or raised.\<close>

definition files_of :: "py_error \<times> shard_file list + wstate \<Rightarrow> shard_file list" where
  "files_of r = (case r of Inl (e, fs) \<Rightarrow> fs | Inr s \<Rightarrow> written s)"

subsection \<open>File discovery\<close>

text \<open>\<^verbatim>\<open>is_i3\<close> (lines 32-38) and \<^verbatim>\<open>has_extension\<close> (lines 39-56).\<close>

definition is_i3 :: "string \<Rightarrow> bool" where
  "is_i3 file =
     (if contains ''gcd'' (lower file) then False
      else if contains ''geo'' (lower file) then False
      else True)"

fun count_extensions :: "string \<Rightarrow> string list \<Rightarrow> nat \<Rightarrow> nat" where
  "count_extensions file [] check = check"
| "count_extensions file (extension # extensions) check =
     count_extensions file extensions (if contains extension file then check + 1 else check)"

definition has_extension :: "string \<Rightarrow> string list \<Rightarrow> bool" where
  "has_extension file extensions =
     (if count_extensions file extensions 0 > 0 then True else False)"

text \<open>\<^verbatim>\<open>os.path.join(a, b)\<close> on POSIX paths.\<close>

definition path_join :: "string \<Rightarrow> string \<Rightarrow> string" where
  "path_join a b =
     (if b \<noteq> [] \<and> hd b = CHR ''/'' then b
      else if a = [] \<or> last a = CHR ''/'' then a @ b
      else a @ ''/'' @ b)"

text \<open>
  Lines 84-90, and again lines 102-108: the loop over the files of one directory, with the
  variables \<^verbatim>\<open>i3files_root\<close>, \<^verbatim>\<open>gcd_root\<close> (\<^verbatim>\<open>None\<close> at first) and \<^verbatim>\<open>gcds_root\<close>
  (\<^verbatim>\<open>i3files_folder\<close>, \<^verbatim>\<open>gcd_folder\<close> and \<^verbatim>\<open>gcds_folder\<close> the second time).
\<close>

fun scan_files ::
  "string \<Rightarrow> string list \<Rightarrow> string list \<Rightarrow> string list \<times> string option \<times> string list
     \<Rightarrow> string list \<times> string option \<times> string list"
where
  "scan_files root extensions [] acc = acc"
| "scan_files root extensions (file # files) (i3files, gcd_dir, gcds) =
     scan_files root extensions files
       (if has_extension file extensions
        then (if is_i3 file
              then (i3files @ [path_join root file], gcd_dir, gcds)
              else (i3files, Some (path_join root file), gcds @ [path_join root file]))
        else (i3files, gcd_dir, gcds))"

text \<open>
  Lines 81-96, and again lines 99-114: the event files of one directory and the list that
  is paired with them. \<^verbatim>\<open>range\<close> of a negative number is empty, as the subtraction on
  \<open>nat\<close> is.
\<close>

definition level_lists ::
  "string \<Rightarrow> string list \<Rightarrow> string list \<Rightarrow> string \<Rightarrow> string list \<times> string list"
where
  "level_lists root files extensions gcd_rescue =
     (case scan_files root extensions files ([], None, []) of
        (i3files, gcd_dir, gcds) \<Rightarrow>
          let gcd' = (case gcd_dir of None \<Rightarrow> gcd_rescue | Some g \<Rightarrow> g)
          in (i3files, gcds @ replicate (length i3files - length gcds) gcd'))"

text \<open>
  \<^verbatim>\<open>pairwiseshuffle\<close> (lines 119-134). \<^verbatim>\<open>pd.DataFrame\<close> raises \<^verbatim>\<open>ValueError\<close> on two
  columns of different lengths.
\<close>

definition pairwiseshuffle ::
  "world \<Rightarrow> string list \<Rightarrow> string list \<Rightarrow> py_error + string list \<times> string list"
where
  "pairwiseshuffle w files_list gcd_list' =
     (if length files_list \<noteq> length gcd_list' then Inl ValueError
      else let df_shuffled = df_sample w (zip files_list gcd_list')
           in Inr (map fst df_shuffled, map snd df_shuffled))"

text \<open>Lines 97-114: the loop over the folders of the directory.\<close>

fun folders_loop ::
  "world \<Rightarrow> string \<Rightarrow> string list \<Rightarrow> string list \<Rightarrow> string \<Rightarrow> string list \<times> string list
     \<Rightarrow> py_error + string list \<times> string list"
where
  "folders_loop w root [] extensions gcd_rescue acc = Inr acc"
| "folders_loop w root (folder # folders) extensions gcd_rescue (files_list, GCD_list) =
     (case walk w (path_join root folder) of
        None \<Rightarrow> Inl StopIteration
      | Some (sub_root, sub_folders, sub_folder_files) \<Rightarrow>
          (case level_lists sub_root sub_folder_files extensions gcd_rescue of
             (i3files_folder, gcds_folder) \<Rightarrow>
               folders_loop w root folders extensions gcd_rescue
                 (files_list @ i3files_folder, GCD_list @ gcds_folder)))"

text \<open>\<^verbatim>\<open>find_i3_files\<close> (lines 66-117).\<close>

definition find_i3_files ::
  "world \<Rightarrow> string \<Rightarrow> string list \<Rightarrow> string \<Rightarrow> py_error + string list \<times> string list"
where
  "find_i3_files w dir extensions gcd_rescue =
     (case walk w dir of
        None \<Rightarrow> Inl StopIteration
      | Some (root, folders, root_files) \<Rightarrow>
          (case level_lists root root_files extensions gcd_rescue of
             (i3files_root, gcds_root) \<Rightarrow>
               (case folders_loop w root folders extensions gcd_rescue (i3files_root, gcds_root) of
                  Inl e \<Rightarrow> Inl e
                | Inr (files_list, GCD_list) \<Rightarrow> pairwiseshuffle w files_list GCD_list)))"

text \<open>Lines 159-162 of \<^verbatim>\<open>find_files\<close>: the loop over the paths.\<close>

fun paths_loop ::
  "world \<Rightarrow> string list \<Rightarrow> string list \<Rightarrow> string \<Rightarrow> string list \<times> string list
     \<Rightarrow> py_error + string list \<times> string list"
where
  "paths_loop w [] extensions gcd_rescue acc = Inr acc"
| "paths_loop w (path # paths) extensions gcd_rescue (input_files', gcd_files') =
     (case find_i3_files w path extensions gcd_rescue of
        Inl e \<Rightarrow> Inl e
      | Inr (input_files_mid, gcd_files_mid) \<Rightarrow>
          paths_loop w paths extensions gcd_rescue
            (input_files' @ input_files_mid, gcd_files' @ gcd_files_mid))"

text \<open>
  \<^verbatim>\<open>find_files\<close> (lines 137-167). The third component of the result is the file that
  \<^verbatim>\<open>save_filenames\<close> writes, when it is called: its path and the file names it lists.
\<close>

definition default_extensions :: "string list" where
  "default_extensions = [''i3.bz2'', ''.zst'', ''.gz'']"

definition find_files ::
  "world \<Rightarrow> string list \<Rightarrow> string \<Rightarrow> string \<Rightarrow> string \<Rightarrow> string list option
     \<Rightarrow> py_error + string list \<times> string list \<times> (string \<times> string list) option"
where
  "find_files w paths outdir' db_name' gcd_rescue extensions =
     (let extensions' = (case extensions of None \<Rightarrow> default_extensions | Some es \<Rightarrow> es)
      in case paths_loop w paths extensions' gcd_rescue ([], []) of
           Inl e \<Rightarrow> Inl e
         | Inr (input_files', gcd_files') \<Rightarrow>
             if length input_files' > 0
             then (case pairwiseshuffle w input_files' gcd_files' of
                     Inl e \<Rightarrow> Inl e
                   | Inr (input_files'', gcd_files'') \<Rightarrow>
                       Inr (input_files'', gcd_files'',
                            Some (outdir' @ ''/'' @ db_name' @ ''/config/i3files.csv'', input_files'')))
             else Inr (input_files', gcd_files', None))"

subsection \<open>The final database\<close>

text \<open>
  The declaration a column gets in \<^verbatim>\<open>_create_table\<close>; \<open>Inferred\<close> is the declaration of a
  column of a table that pandas creates on its own in \<^verbatim>\<open>to_sql\<close>.
\<close>

datatype coldecl = IntegerPrimaryKeyNotNull | NotNull | Float | Inferred

record sql_table =
  decls :: "(string \<times> coldecl) list"
  stored :: "row list"

text \<open>
  A database: the scripts run on it through \<^verbatim>\<open>_run_sql_code\<close>, in order, its tables by
  name, and its indexes (name of the index, table, column).
\<close>

record database =
  executed :: "string list"
  tables :: "(string \<times> sql_table) list"
  indexes :: "(string \<times> string \<times> string) list"

definition new_database :: database where
  "new_database = \<lparr>executed = [], tables = [], indexes = []\<rparr>"

text \<open>What a script of this program asks of SQLite.\<close>

datatype stmt =
    CreateTable string "(string \<times> coldecl) list"
  | CreateIndex string string string

text \<open>The table of a name in the database, as SQLite finds it.\<close>

definition find_table :: "database \<Rightarrow> string \<Rightarrow> sql_table option" where
  "find_table db name = map_of (map (\<lambda>(n, t). (lower n, t)) (tables db)) (lower name)"

text \<open>
  \<^verbatim>\<open>_run_sql_code\<close> (lines 379-384): the script \<open>CODE\<close> is run on the database; \<open>s\<close> is
  the statement that the script holds between its pragmas when the names pasted into it
  are plain names. SQLite raises, and leaves the database as it was, when a name is not
  plain, when the name of the new table or index is taken by a table or an index, when two
  columns of the new table have the same name, when the table to index does not exist, and
  when it has no column of the indexed name.
\<close>

definition run_sql_code :: "database \<Rightarrow> string \<Rightarrow> stmt \<Rightarrow> py_error \<times> database + database" where
  "run_sql_code db CODE s =
     (case s of
        CreateTable name ds \<Rightarrow>
          if \<not> table_name_ok name \<or> ds = [] \<or> \<not> list_all plain_name (map fst ds)
             \<or> \<not> distinct (map (lower \<circ> fst) ds)
             \<or> lower name \<in> set (map (lower \<circ> fst) (tables db))
             \<or> lower name \<in> set (map (lower \<circ> fst) (indexes db))
          then Inl (OperationalError, db)
          else Inr (db\<lparr>executed := executed db @ [CODE],
                       tables := tables db @ [(name, \<lparr>decls = ds, stored = []\<rparr>)]\<rparr>)
      | CreateIndex iname tname cname \<Rightarrow>
          if \<not> plain_name iname \<or> \<not> plain_name tname \<or> \<not> plain_name cname
             \<or> lower iname \<in> set (map (lower \<circ> fst) (tables db))
             \<or> lower iname \<in> set (map (lower \<circ> fst) (indexes db))
          then Inl (OperationalError, db)
          else (case find_table db tname of
                  None \<Rightarrow> Inl (OperationalError, db)
                | Some t \<Rightarrow>
                    if lower cname \<notin> set (map (lower \<circ> fst) (decls t))
                    then Inl (OperationalError, db)
                    else Inr (db\<lparr>executed := executed db @ [CODE],
                                 indexes := indexes db @ [(iname, tname, cname)]\<rparr>)))"

text \<open>\<^verbatim>\<open>_attach_index\<close> (lines 386-395).\<close>

definition attach_index :: "database \<Rightarrow> string \<Rightarrow> py_error \<times> database + database" where
  "attach_index db table_name =
     (let CODE = ''PRAGMA foreign_keys=off;\<newline>BEGIN TRANSACTION;\<newline>CREATE INDEX event_no_''
                 @ table_name @ '' ON '' @ table_name
                 @ '' (event_no);\<newline>COMMIT TRANSACTION;\<newline>PRAGMA foreign_keys=on;''
      in run_sql_code db CODE (CreateIndex (''event_no_'' @ table_name) table_name ''event_no''))"

text \<open>
  Lines 406-425 of \<^verbatim>\<open>_create_table\<close>: the loop that builds \<^verbatim>\<open>query_columns\<close>, a variable
  that is unbound (\<open>None\<close>) until the first column.
\<close>

fun query_columns_loop :: "bool \<Rightarrow> string list \<Rightarrow> nat \<Rightarrow> string option \<Rightarrow> string option" where
  "query_columns_loop is_pulse_map [] count' query_columns = query_columns"
| "query_columns_loop is_pulse_map (column # columns') count' query_columns =
     query_columns_loop is_pulse_map columns' (count' + 1)
       (if count' = 0
        then (if column = ''event_no''
              then (if is_pulse_map = False
                    then Some (column @ '' INTEGER PRIMARY KEY NOT NULL'')
                    else Some (column @ '' NOT NULL''))
              else Some (column @ '' FLOAT''))
        else (if column = ''event_no''
              then (if is_pulse_map = False
                    then map_option (\<lambda>q. q @ '', '' @ column @ '' INTEGER PRIMARY KEY NOT NULL'')
                           query_columns
                    else map_option (\<lambda>q. q @ '', '' @ column @ '' NOT NULL'') query_columns)
              else map_option (\<lambda>q. q @ '', '' @ column @ '' FLOAT'') query_columns))"

text \<open>The declaration the loop writes for a column, and its text.\<close>

definition column_decl :: "bool \<Rightarrow> string \<Rightarrow> coldecl" where
  "column_decl is_pulse_map column =
     (if column = ''event_no''
      then (if is_pulse_map = False then IntegerPrimaryKeyNotNull else NotNull)
      else Float)"

fun decl_text :: "coldecl \<Rightarrow> string" where
  "decl_text IntegerPrimaryKeyNotNull = '' INTEGER PRIMARY KEY NOT NULL''"
| "decl_text NotNull = '' NOT NULL''"
| "decl_text Float = '' FLOAT''"
| "decl_text Inferred = ''''"

text \<open>
  \<^verbatim>\<open>_create_table\<close> (lines 397-432). With no column, \<^verbatim>\<open>query_columns\<close> is still unbound at
  line 426.
\<close>

definition create_table ::
  "database \<Rightarrow> string \<Rightarrow> string list \<Rightarrow> bool \<Rightarrow> py_error \<times> database + database"
where
  "create_table db table_name columns' is_pulse_map =
     (case query_columns_loop is_pulse_map columns' 0 None of
        None \<Rightarrow> Inl (UnboundLocalError, db)
      | Some query_columns \<Rightarrow>
          let CODE = ''PRAGMA foreign_keys=off;\<newline>CREATE TABLE '' @ table_name @ '' (''
                     @ query_columns @ '');\<newline>PRAGMA foreign_keys=on;''
          in case run_sql_code db CODE
                    (CreateTable table_name (map (\<lambda>c. (c, column_decl is_pulse_map c)) columns')) of
               Inl e \<Rightarrow> Inl e
             | Inr db' \<Rightarrow> if is_pulse_map then attach_index db' table_name else Inr db')"

text \<open>\<^verbatim>\<open>_create_empty_tables\<close> (lines 434-451).\<close>

definition create_empty_tables ::
  "database \<Rightarrow> string \<Rightarrow> string list \<Rightarrow> string list \<Rightarrow> string list
     \<Rightarrow> py_error \<times> database + database"
where
  "create_empty_tables db pulse_map truth_columns pulse_map_columns retro_columns =
     (case create_table db ''truth'' truth_columns False of
        Inl e \<Rightarrow> Inl e
      | Inr db1 \<Rightarrow>
          (case (if length retro_columns > 1
                 then create_table db1 ''RetroReco'' retro_columns False
                 else Inr db1) of
             Inl e \<Rightarrow> Inl e
           | Inr db2 \<Rightarrow> create_table db2 pulse_map pulse_map_columns True))"

text \<open>
  The text of a statement, column by column: what the scripts of \<^verbatim>\<open>_create_table\<close> and
  \<^verbatim>\<open>_attach_index\<close> are compared with.
\<close>

fun join :: "string \<Rightarrow> string list \<Rightarrow> string" where
  "join sep [] = []"
| "join sep [x] = x"
| "join sep (x # y # ys) = x @ sep @ join sep (y # ys)"

fun sql_text :: "stmt \<Rightarrow> string" where
  "sql_text (CreateTable name ds) =
     ''PRAGMA foreign_keys=off;\<newline>CREATE TABLE '' @ name @ '' (''
     @ join '', '' (map (\<lambda>(c, d). c @ decl_text d) ds) @ '');\<newline>PRAGMA foreign_keys=on;''"
| "sql_text (CreateIndex iname tname cname) =
     ''PRAGMA foreign_keys=off;\<newline>BEGIN TRANSACTION;\<newline>CREATE INDEX '' @ iname @ '' ON ''
     @ tname @ '' ('' @ cname @ '');\<newline>COMMIT TRANSACTION;\<newline>PRAGMA foreign_keys=on;''"

subsection \<open>Schema inference and merge\<close>

text \<open>
  \<^verbatim>\<open>pd.read_sql('select * from NAME', con)\<close> on a temporary file, with the name pasted into
  the query: the table of that name, when the name is plain and the file has the table.
  pandas raises \<^verbatim>\<open>DatabaseError\<close> otherwise.
\<close>

definition read_table :: "shard \<Rightarrow> string \<Rightarrow> dataframe option" where
  "read_table db name =
     (if \<not> plain_name name then None
      else if lower name = ''truth'' then truth_table db
      else if lower name = ''retroreco'' then retro_table db
      else if lower name = lower (pulsemap_name db) then pulsemap_table db
      else None)"

text \<open>
  Lines 367-376 of \<^verbatim>\<open>_extract_column_names\<close>: the loop over the temporary files, with the
  variable \<^verbatim>\<open>retro_columns\<close> (unbound, \<open>None\<close>, before the first file). Reading a table that
  does not exist raises, and the \<^verbatim>\<open>except\<close> sets the variable to the empty list.
\<close>

fun retro_scan :: "shard_file list \<Rightarrow> string list option \<Rightarrow> string list option" where
  "retro_scan [] retro_columns = retro_columns"
| "retro_scan (db_file # db_files) retro_columns =
     (case read_table (snd db_file) ''RetroReco'' of
        None \<Rightarrow> retro_scan db_files (Some [])
      | Some t \<Rightarrow>
          if length (columns t) > 0 then Some (columns t)
          else retro_scan db_files (Some (columns t)))"

text \<open>
  \<^verbatim>\<open>_extract_column_names\<close> (lines 356-377). The truth and pulsemap headers are read from
  \<^verbatim>\<open>db_files[0]\<close>, outside any \<^verbatim>\<open>try\<close>.
\<close>

definition extract_column_names ::
  "shard_file list \<Rightarrow> string \<Rightarrow> py_error + string list \<times> string list \<times> string list"
where
  "extract_column_names db_files pulsemap' =
     (case db_files of
        [] \<Rightarrow> Inl IndexError
      | db # _ \<Rightarrow>
          (case read_table (snd db) ''truth'' of
             None \<Rightarrow> Inl DatabaseError
           | Some truth \<Rightarrow>
               let truth_columns = columns truth in
               (case read_table (snd db) pulsemap' of
                  None \<Rightarrow> Inl DatabaseError
                | Some pulse_map \<Rightarrow>
                    let pulse_map_columns = columns pulse_map in
                    (case retro_scan db_files None of
                       None \<Rightarrow> Inl UnboundLocalError
                     | Some retro_columns \<Rightarrow>
                         Inr (truth_columns, pulse_map_columns, retro_columns)))))"

text \<open>
  \<^verbatim>\<open>df.to_sql(name, engine, index = False, if_exists = 'append')\<close> on the final database.
  A missing table is created by pandas. Otherwise the rows are inserted, which SQLite
  refuses when the frame has a column the table lacks, when an \<^verbatim>\<open>event_no\<close> declared
  \<^verbatim>\<open>NOT NULL\<close> is missing, or when two rows of the table would have the same
  \<^verbatim>\<open>event_no\<close> under \<^verbatim>\<open>INTEGER PRIMARY KEY\<close>.
\<close>

definition null_event_no :: "row \<Rightarrow> bool" where
  "null_event_no r = (map_of r ''event_no'' = None \<or> map_of r ''event_no'' = Some SNone)"

definition to_sql :: "database \<Rightarrow> string \<Rightarrow> dataframe \<Rightarrow> py_error \<times> database + database" where
  "to_sql db name df =
     (case find_table db name of
        None \<Rightarrow>
          if \<not> creatable df then Inl (OperationalError, db)
          else Inr (db\<lparr>tables := tables db @
                      [(name, \<lparr>decls = map (\<lambda>c. (c, Inferred)) (columns df), stored = rows df\<rparr>)]\<rparr>)
      | Some t \<Rightarrow>
          if \<not> set (map lower (columns df)) \<subseteq> set (map (lower \<circ> fst) (decls t))
          then Inl (OperationalError, db)
          else if (''event_no'', NotNull) \<in> set (decls t) \<and> list_ex null_event_no (rows df)
          then Inl (IntegrityError, db)
          else if (''event_no'', IntegerPrimaryKeyNotNull) \<in> set (decls t)
                  \<and> \<not> distinct (List.map_filter event_no_of (stored t @ rows df))
          then Inl (IntegrityError, db)
          else Inr (db\<lparr>tables :=
                      map (\<lambda>(n, t'). if lower n = lower name
                                     then (n, t'\<lparr>stored := stored t' @ rows df\<rparr>)
                                     else (n, t')) (tables db)\<rparr>))"

text \<open>
  \<^verbatim>\<open>_extract_everything\<close> (lines 491-516); \<^verbatim>\<open>retro\<close> is \<^verbatim>\<open>[]\<close> (\<open>None\<close>) when the file has
  no RetroReco table.
\<close>

definition extract_everything ::
  "shard \<Rightarrow> string \<Rightarrow> py_error + dataframe \<times> dataframe \<times> dataframe option"
where
  "extract_everything db pulsemap' =
     (case read_table db ''truth'' of
        None \<Rightarrow> Inl DatabaseError
      | Some truth \<Rightarrow>
          (case read_table db pulsemap' of
             None \<Rightarrow> Inl DatabaseError
           | Some features \<Rightarrow> Inr (truth, features, read_table db ''RetroReco'')))"

text \<open>\<^verbatim>\<open>_submit_truth\<close>, \<^verbatim>\<open>_submit_pulse_maps\<close> and \<^verbatim>\<open>_submit_retro\<close> (lines 453-489).\<close>

definition submit_truth :: "database \<Rightarrow> dataframe \<Rightarrow> py_error \<times> database + database" where
  "submit_truth db truth = to_sql db ''truth'' truth"

definition submit_pulse_maps ::
  "database \<Rightarrow> dataframe \<Rightarrow> string \<Rightarrow> py_error \<times> database + database"
where
  "submit_pulse_maps db features pulse_map = to_sql db pulse_map features"

definition submit_retro :: "database \<Rightarrow> dataframe option \<Rightarrow> py_error \<times> database + database" where
  "submit_retro db retro =
     (case retro of
        None \<Rightarrow> Inr db
      | Some r \<Rightarrow> if len r > 0 then to_sql db ''RetroReco'' r else Inr db)"

text \<open>\<^verbatim>\<open>_merge_temporary_databases\<close> (lines 518-535).\<close>

fun merge_temporary_databases ::
  "database \<Rightarrow> shard_file list \<Rightarrow> string \<Rightarrow> py_error \<times> database + database"
where
  "merge_temporary_databases db [] pulse_map = Inr db"
| "merge_temporary_databases db (file # db_files) pulse_map =
     (case extract_everything (snd file) pulse_map of
        Inl e \<Rightarrow> Inl (e, db)
      | Inr (truth, features, retro) \<Rightarrow>
          (case submit_truth db truth of
             Inl e \<Rightarrow> Inl e
           | Inr db1 \<Rightarrow>
               (case submit_pulse_maps db1 features pulse_map of
                  Inl e \<Rightarrow> Inl e
                | Inr db2 \<Rightarrow>
                    (case submit_retro db2 retro of
                       Inl e \<Rightarrow> Inl e
                     | Inr db3 \<Rightarrow> merge_temporary_databases db3 db_files pulse_map))))"

subsection \<open>The orchestrator\<close>

text \<open>The arguments of the constructor (lines 278-302), kept in \<^verbatim>\<open>self\<close>.\<close>

record converter =
  self_paths :: "string list"
  self_mode :: string
  self_pulsemap :: string
  self_gcd_rescue :: string
  self_outdir :: string
  self_db_name :: string
  self_verbose :: int
  self_workers :: int
  self_max_dict_size :: int

text \<open>
  The lines printed by \<^verbatim>\<open>find_files\<close>, \<^verbatim>\<open>_processfiles\<close> and \<^verbatim>\<open>_merge_databases\<close>, with the
  values they are formatted with. The progress lines of the table creation are left out.
\<close>

datatype message =
    CountingFiles "string list"
  | StartingPool
  | PoolJoined
  | NoFilesFound "string list"
  | FoundDbFiles nat string
  | NoTemporaryDatabaseFiles

text \<open>
  What a run leaves: the printed lines, the exception that left \<^verbatim>\<open>_processfiles\<close> if one
  did, the file of \<^verbatim>\<open>save_filenames\<close>, the outcomes of the workers as the pool holds them
  in the object that \<^verbatim>\<open>map_async\<close> returns (\<open>None\<close> before the pool is started), the
  temporary files, and the final database (\<open>None\<close> while it does not exist). The output
  directory is taken to be empty before the run.
\<close>

record run =
  printed :: "message list"
  raised :: "py_error option"
  csv_file :: "(string \<times> string list) option"
  async_result :: "(py_error \<times> shard_file list + wstate) list option"
  tmp_files :: "shard_file list"
  final_database :: "database option"

text \<open>
  \<^verbatim>\<open>get_temporary_database_paths\<close> (lines 58-64). The test is made on the path a file was
  written under; its last component is the name that \<^verbatim>\<open>os.listdir\<close> returns.
\<close>

definition get_temporary_database_paths :: "world \<Rightarrow> shard_file list \<Rightarrow> shard_file list" where
  "get_temporary_database_paths w tmp = filter (\<lambda>file. contains ''.db'' (fst file)) (listdir w tmp)"

text \<open>\<^verbatim>\<open>_merge_databases\<close> (lines 339-355), continuing the run \<open>r\<close>.\<close>

definition merge_databases :: "world \<Rightarrow> converter \<Rightarrow> run \<Rightarrow> run" where
  "merge_databases w self r =
     (let path_tmp = self_outdir self @ ''/'' @ self_db_name self @ ''/tmp'';
          db_files = get_temporary_database_paths w (tmp_files r)
      in if length db_files > 0
         then (let r1 = r\<lparr>printed := printed r @ [FoundDbFiles (length db_files) path_tmp]\<rparr>
               in case extract_column_names db_files (self_pulsemap self) of
                    Inl e \<Rightarrow> r1\<lparr>raised := Some e\<rparr>
                  | Inr (truth_columns, pulse_map_columns, retro_columns) \<Rightarrow>
                      (case create_empty_tables new_database (self_pulsemap self)
                              truth_columns pulse_map_columns retro_columns of
                         Inl (e, db) \<Rightarrow> r1\<lparr>raised := Some e, final_database := Some db\<rparr>
                       | Inr db \<Rightarrow>
                           (case merge_temporary_databases db db_files (self_pulsemap self) of
                              Inl (e, db') \<Rightarrow> r1\<lparr>raised := Some e, final_database := Some db'\<rparr>
                            | Inr db' \<Rightarrow> r1\<lparr>tmp_files := [], final_database := Some db'\<rparr>)))
         else r\<lparr>printed := printed r @ [NoTemporaryDatabaseFiles]\<rparr>)"

text \<open>Lines 320-325 of \<^verbatim>\<open>_processfiles\<close>: the settings of the workers.\<close>

definition worker_settings ::
  "converter \<Rightarrow> int \<Rightarrow> string list \<Rightarrow> string list \<Rightarrow> py_error + settings list"
where
  "worker_settings self workers' input_files' gcd_files' =
     (case event_nos workers' of
        Inl e \<Rightarrow> Inl e
      | Inr event_nos' \<Rightarrow>
          (case array_split input_files' workers' of
             Inl e \<Rightarrow> Inl e
           | Inr file_list \<Rightarrow>
               (case array_split gcd_files' workers' of
                  Inl e \<Rightarrow> Inl e
                | Inr gcd_file_list \<Rightarrow>
                    Inr (map (\<lambda>i. \<lparr>input_files = file_list ! i,
                                    worker_id = str_nat i,
                                    gcd_files = gcd_file_list ! i,
                                    event_no_list = event_nos' ! i,
                                    mode = self_mode self,
                                    pulsemap = self_pulsemap self,
                                    max_dict_size = self_max_dict_size self,
                                    db_name = self_db_name self,
                                    outdir = self_outdir self\<rparr>)
                           [0..<nat workers']))))"

text \<open>
  \<^verbatim>\<open>_processfiles\<close> (lines 304-337). \<^verbatim>\<open>p.map_async(parallel_extraction, settings)\<close> runs the
  function on every element of \<^verbatim>\<open>settings\<close> in a process of the pool and keeps what each call
  returned or raised in its result object; \<^verbatim>\<open>_processfiles\<close> drops that object, and
  \<^verbatim>\<open>p.close()\<close> and \<^verbatim>\<open>p.join()\<close> wait for the processes. The workers share nothing but the
  directory of temporary files, where each writes under its own names.
\<close>

definition processfiles :: "world \<Rightarrow> converter \<Rightarrow> run" where
  "processfiles w self =
     (let r0 = \<lparr>printed = [CountingFiles (self_paths self)], raised = None, csv_file = None,
                async_result = None, tmp_files = [], final_database = None\<rparr>
      in case find_files w (self_paths self) (self_outdir self) (self_db_name self)
                (self_gcd_rescue self) None of
           Inl e \<Rightarrow> r0\<lparr>raised := Some e\<rparr>
         | Inr (input_files', gcd_files', csv) \<Rightarrow>
             let r1 = r0\<lparr>csv_file := csv\<rparr> in
             if length input_files' > 0
             then (let workers' = (if self_workers self > int (length input_files')
                                   then int (length input_files') else self_workers self)
                   in case worker_settings self workers' input_files' gcd_files' of
                        Inl e \<Rightarrow> r1\<lparr>raised := Some e\<rparr>
                      | Inr settings' \<Rightarrow>
                          let results = map (parallel_extraction w) settings';
                              r2 = r1\<lparr>printed := printed r1 @ [StartingPool, PoolJoined],
                                      async_result := Some results,
                                      tmp_files := concat (map files_of results)\<rparr>
                          in merge_databases w self r2)
             else r1\<lparr>printed := printed r1 @ [NoFilesFound (self_paths self)]\<rparr>)"

subsection \<open>Notions used in the statements\<close>

text \<open>Every row of a frame, and of a temporary database, has an event number from \<open>S\<close>.\<close>

definition frame_ids_in :: "int set \<Rightarrow> dataframe \<Rightarrow> bool" where
  "frame_ids_in S df = (\<forall>r \<in> set (rows df). \<exists>n \<in> S. event_no_of r = Some n)"

definition shard_ids_in :: "int set \<Rightarrow> shard \<Rightarrow> bool" where
  "shard_ids_in S sh =
     ((case truth_table sh of None \<Rightarrow> True | Some t \<Rightarrow> frame_ids_in S t)
      \<and> (case retro_table sh of None \<Rightarrow> True | Some t \<Rightarrow> frame_ids_in S t)
      \<and> (case pulsemap_table sh of None \<Rightarrow> True | Some t \<Rightarrow> frame_ids_in S t))"

text \<open>The same of a worker: its three buffers and the files it has written.\<close>

definition wstate_ids_in :: "int set \<Rightarrow> wstate \<Rightarrow> bool" where
  "wstate_ids_in S s =
     (frame_ids_in S (truth_big s) \<and> frame_ids_in S (retro_big s)
      \<and> frame_ids_in S (feature_big s)
      \<and> (\<forall>f \<in> set (written s). shard_ids_in S (snd f)))"

definition outcome_ids_in :: "int set \<Rightarrow> py_error \<times> shard_file list + wstate \<Rightarrow> bool" where
  "outcome_ids_in S r =
     (case r of
        Inl (e, fs) \<Rightarrow> \<forall>f \<in> set fs. shard_ids_in S (snd f)
      | Inr s \<Rightarrow> wstate_ids_in S s)"

text \<open>
  The rows a worker has recorded so far, table by table: those of the files it has
  written, in order, and then those still in the buffer.
\<close>

definition truth_rows :: "shard \<Rightarrow> row list" where
  "truth_rows sh = (case truth_table sh of None \<Rightarrow> [] | Some t \<Rightarrow> rows t)"

definition pulse_rows :: "shard \<Rightarrow> row list" where
  "pulse_rows sh = (case pulsemap_table sh of None \<Rightarrow> [] | Some t \<Rightarrow> rows t)"

definition retro_rows :: "shard \<Rightarrow> row list" where
  "retro_rows sh = (case retro_table sh of None \<Rightarrow> [] | Some t \<Rightarrow> rows t)"

definition truth_rows_of :: "wstate \<Rightarrow> row list" where
  "truth_rows_of s = concat (map (\<lambda>f. truth_rows (snd f)) (written s)) @ rows (truth_big s)"

definition pulse_rows_of :: "wstate \<Rightarrow> row list" where
  "pulse_rows_of s = concat (map (\<lambda>f. pulse_rows (snd f)) (written s)) @ rows (feature_big s)"

definition retro_rows_of :: "wstate \<Rightarrow> row list" where
  "retro_rows_of s = concat (map (\<lambda>f. retro_rows (snd f)) (written s)) @ rows (retro_big s)"

text \<open>
  Modelled from the spec: the truth fragment that \<^verbatim>\<open>I3Extractor\<close> returns for a frame is one
  event record, one row of the truth table. \<open>one_truth_row_each\<close> says so of every frame of
  the files of a worker.
\<close>

fun one_truth_row :: "pop \<Rightarrow> bool" where
  "one_truth_row (PopFrame (Inr (truths, features, retros))) = (nrows truths = 1)"
| "one_truth_row p = True"

definition one_truth_row_each :: "world \<Rightarrow> settings \<Rightarrow> bool" where
  "one_truth_row_each w st =
     list_all (\<lambda>path. case I3File w path of
                        Inl e \<Rightarrow> True
                      | Inr i3_file \<Rightarrow> list_all one_truth_row i3_file)
       (input_files st)"

text \<open>\<^verbatim>\<open>df.sample(frac = 1)\<close> returns the rows of the frame, each once, in some order.\<close>

definition sample_permutes :: "world \<Rightarrow> bool" where
  "sample_permutes w = (\<forall>df. mset (df_sample w df) = mset df)"

text \<open>The database that an operation leaves, whether it returned or raised.\<close>

definition database_after :: "py_error \<times> database + database \<Rightarrow> database" where
  "database_after r = (case r of Inl (e, db) \<Rightarrow> db | Inr db \<Rightarrow> db)"

text \<open>The table of the database under a name, and the names of its columns.\<close>

definition table_columns :: "database \<Rightarrow> string \<Rightarrow> string list option" where
  "table_columns db name = map_option (\<lambda>t. map fst (decls t)) (find_table db name)"

text \<open>
  A header that SQLite reads as the program means it: it has a column, every name is a
  plain name, and no two names are the same for SQLite.
\<close>

definition header_ok :: "string list \<Rightarrow> bool" where
  "header_ok cols = (cols \<noteq> [] \<and> list_all plain_name cols \<and> distinct (map lower cols))"

text \<open>
  A pulsemap name that SQLite reads as the program means it: a plain name that SQLite does
  not keep for itself and that is not the name of one of the other two tables.
\<close>

definition pulsemap_ok :: "string \<Rightarrow> bool" where
  "pulsemap_ok pulse_map =
     (table_name_ok pulse_map \<and> lower pulse_map \<noteq> ''truth'' \<and> lower pulse_map \<noteq> ''retroreco'')"

text \<open>
  A temporary file that a flush has completed, as the merge needs the first one: it has
  the truth table and the pulsemap table, under the configured name, the pulsemap table
  with the column \<^verbatim>\<open>event_no\<close>, and SQLite reads the two headers as written. And a file
  whose auxiliary header, when it has the table, SQLite reads as written.
\<close>

definition complete_file :: "string \<Rightarrow> shard \<Rightarrow> bool" where
  "complete_file pulse_map sh =
     (case truth_table sh of
        None \<Rightarrow> False
      | Some truth \<Rightarrow>
          (case pulsemap_table sh of
             None \<Rightarrow> False
           | Some features \<Rightarrow>
               lower (pulsemap_name sh) = lower pulse_map
               \<and> header_ok (columns truth) \<and> header_ok (columns features)
               \<and> ''event_no'' \<in> set (columns features)))"

definition retro_header_ok :: "shard \<Rightarrow> bool" where
  "retro_header_ok sh = (case retro_table sh of None \<Rightarrow> True | Some t \<Rightarrow> header_ok (columns t))"

subsection \<open>Example inputs\<close>

text \<open>
  A directory with three event files and one calibration file, whose frames carry a truth
  fragment with one attribute and a pulse fragment that is empty when \<open>e\<close> holds.
\<close>

definition example_frame :: "string \<Rightarrow> bool \<Rightarrow> pop" where
  "example_frame n e =
     PopFrame (Inr ([(''energy'', Scalar (SOther n))],
                    [(''dom_x'', if e then Scalar SNone else Values [SInt 1, SInt 2])],
                    []))"

definition example_world :: world where
  "example_world =
     \<lparr>walk = (\<lambda>d. if d = ''/data''
                   then Some (''/data'', [], [''a.i3.zst'', ''b.i3.zst'', ''c.i3.zst'', ''GCD.i3.gz'', ''readme''])
                   else None),
      df_sample = (\<lambda>df. df),
      listdir = (\<lambda>fs. fs),
      load_geospatial_data = (\<lambda>p. if p = ''/data/GCD.i3.gz'' then Inr () else Inl OSError),
      I3File = (\<lambda>p. if p = ''/data/a.i3.zst''
                     then Inr [example_frame ''1'' False, PopRaises, example_frame ''2'' True]
                     else if p = ''/data/b.i3.zst''
                     then Inr [example_frame ''3'' False, example_frame ''4'' False]
                     else if p = ''/data/c.i3.zst'' then Inr [example_frame ''5'' False]
                     else Inl OSError)\<rparr>"

definition example_converter :: converter where
  "example_converter =
     \<lparr>self_paths = [''/data''], self_mode = ''oscNext'', self_pulsemap = ''SRTInIcePulses'',
      self_gcd_rescue = ''/rescue/GCD.i3.gz'', self_outdir = ''/out'', self_db_name = ''db'',
      self_verbose = 1, self_workers = 2, self_max_dict_size = 2\<rparr>"

text \<open>A worker with the three files, five ids and a batch size of two.\<close>

definition example_settings :: settings where
  "example_settings =
     \<lparr>input_files = [''/data/a.i3.zst'', ''/data/b.i3.zst'', ''/data/c.i3.zst''], worker_id = ''0'',
      gcd_files = [''/data/GCD.i3.gz'', ''/data/GCD.i3.gz'', ''/data/GCD.i3.gz''],
      event_no_list = [5, 6, 7, 8, 9],
      mode = ''oscNext'', pulsemap = ''SRTInIcePulses'', max_dict_size = 2,
      db_name = ''db'', outdir = ''/out''\<rparr>"

text \<open>
  A directory that holds the calibration file and a folder with the event file; a
  directory with nothing in it; and a directory that holds a calibration file only.
\<close>

definition gcd_at_root_world :: world where
  "gcd_at_root_world =
     example_world
       \<lparr>walk := (\<lambda>d. if d = ''/data'' then Some (''/data'', [''run1''], [''GeoCalibDetectorStatus.i3.gz''])
                     else if d = ''/data/run1'' then Some (''/data/run1'', [], [''events.i3.zst''])
                     else None)\<rparr>"

definition empty_world :: world where
  "empty_world = example_world\<lparr>walk := (\<lambda>d. if d = ''/data'' then Some (''/data'', [], []) else None)\<rparr>"

definition gcd_only_world :: world where
  "gcd_only_world =
     example_world
       \<lparr>walk := (\<lambda>d. if d = ''/data'' then Some (''/data'', [], [''GeoCalibDetectorStatus.i3.gz''])
                     else None)\<rparr>"

text \<open>The example directory, where the third event file cannot be opened.\<close>

definition failing_open_world :: world where
  "failing_open_world =
     example_world
       \<lparr>I3File := (\<lambda>p. if p = ''/data/c.i3.zst'' then Inl OSError else I3File example_world p)\<rparr>"

text \<open>
  Files of one frame with an auxiliary fragment: two values under its key in the first
  file, one value in the others. The worker that processes the first file, and the files
  that two workers leave, one without and one with auxiliary rows.
\<close>

definition retro_world :: world where
  "retro_world =
     example_world
       \<lparr>I3File := (\<lambda>p. if p = ''/data/a.i3.zst''
                      then Inr [PopFrame (Inr ([(''energy'', Scalar (SOther ''1''))],
                                               [(''dom_x'', Values [SInt 1])],
                                               [(''azimuth_retro'', Values [SOther ''0.1'', SOther ''0.2''])]))]
                      else Inr [PopFrame (Inr ([(''energy'', Scalar (SOther ''2''))],
                                               [(''dom_x'', Values [SInt 1])],
                                               [(''azimuth_retro'', Scalar (SOther ''0.3''))]))])\<rparr>"

definition retro_settings :: settings where
  "retro_settings =
     example_settings\<lparr>input_files := [''/data/a.i3.zst''], worker_id := ''1'',
                       event_no_list := [10, 11]\<rparr>"

definition plain_and_retro_files :: "shard_file list" where
  "plain_and_retro_files =
     files_of (parallel_extraction example_world (example_settings\<lparr>input_files := [''/data/c.i3.zst'']\<rparr>))
     @ files_of (parallel_extraction retro_world (retro_settings\<lparr>input_files := [''/data/b.i3.zst'']\<rparr>))"


text \<open>
  A file of one frame whose auxiliary fragment has the key \<^verbatim>\<open>event_no\<close> alone, with two
  values under it.
\<close>

definition bare_retro_world :: world where
  "bare_retro_world =
     example_world
       \<lparr>I3File := (\<lambda>p. Inr [PopFrame (Inr ([(''energy'', Scalar (SOther ''1''))],
                                              [(''dom_x'', Values [SInt 1])],
                                              [(''event_no'', Values [SNone, SNone])]))])\<rparr>"

text \<open>A run that has reached the merge with the temporary files \<open>fs\<close>.\<close>

definition run_with :: "shard_file list \<Rightarrow> run" where
  "run_with fs =
     \<lparr>printed = [], raised = None, csv_file = None, async_result = None, tmp_files = fs,
      final_database = None\<rparr>"

text \<open>
  Files of one frame with an auxiliary fragment: in the first world its pulse fragment is
  empty, in the second the auxiliary attribute is named \<^verbatim>\<open>order\<close>.
\<close>

definition dark_retro_world :: world where
  "dark_retro_world =
     example_world
       \<lparr>I3File := (\<lambda>p. Inr [PopFrame (Inr ([(''energy'', Scalar (SOther ''1''))],
                                              [(''dom_x'', Scalar SNone)],
                                              [(''azimuth_retro'', Scalar (SOther ''0.1''))]))])\<rparr>"

definition order_retro_world :: world where
  "order_retro_world =
     example_world
       \<lparr>I3File := (\<lambda>p. Inr [PopFrame (Inr ([(''energy'', Scalar (SOther ''1''))],
                                              [(''dom_x'', Values [SInt 1])],
                                              [(''order'', Scalar (SOther ''0.1''))]))])\<rparr>"
section \<open>Proofs\<close>

subsection \<open>The id allocation\<close>

lemma length_cumsum_from: "length (cumsum_from a xs) = length xs"
  by (induction xs arbitrary: a) auto

lemma cumsum_from_nth:
  "i < length xs \<Longrightarrow> cumsum_from a xs ! i = a + sum_list (take (Suc i) xs)"
proof (induction xs arbitrary: a i)
  case Nil
  then show ?case by simp
next
  case (Cons x xs)
  then show ?case by (cases i) auto
qed

lemma sum_list_take_replicate2:
  "sum_list (take i (replicate r (Suc q) @ replicate m q)) =
     (if i \<le> r then i * Suc q else r * Suc q + min (i - r) m * q)"
  by (auto simp: min_def sum_list_replicate)

lemma div_points_nth:
  assumes "0 < n" "i \<le> n"
  shows "cumsum (section_sizes l n) ! i = div_point l n i"
proof -
  have r: "l mod n < n" using assms by simp
  have len: "i < length (section_sizes l n)"
    using assms r by (simp add: section_sizes_def Let_def)
  have "cumsum (section_sizes l n) ! i = sum_list (take (Suc i) (section_sizes l n))"
    unfolding cumsum_def using cumsum_from_nth[OF len, of 0] by simp
  also have "\<dots> = sum_list (take i (replicate (l mod n) (Suc (l div n)) @ replicate (n - l mod n) (l div n)))"
    by (simp add: section_sizes_def Let_def)
  also have "\<dots> = div_point l n i"
    unfolding sum_list_take_replicate2 div_point_def using assms r
    by (auto simp: min_def algebra_simps)
  finally show ?thesis .
qed

lemma div_point_0: "div_point l n 0 = 0"
  by (simp add: div_point_def)

lemma div_point_n: "0 < n \<Longrightarrow> div_point l n n = l"
proof -
  assume "0 < n"
  then have "l mod n < n" by simp
  then have "min n (l mod n) = l mod n" by simp
  then show ?thesis by (simp add: div_point_def mult.commute)
qed

lemma div_point_mono: "i \<le> j \<Longrightarrow> div_point l n i \<le> div_point l n j"
  unfolding div_point_def by (intro add_mono mult_le_mono1 min.mono) auto

lemma slice_append_adjacent:
  "a \<le> b \<Longrightarrow> b \<le> c \<Longrightarrow> slice xs a b @ slice xs b c = slice xs a c"
proof -
  assume ab: "a \<le> b" and bc: "b \<le> c"
  have "take (c - a) (drop a xs) = take (b - a) (drop a xs) @ take (c - b) (drop (b - a) (drop a xs))"
    using ab bc take_add[of "b - a" "c - b" "drop a xs"] by simp
  then show ?thesis using ab by (simp add: slice_def)
qed

lemma concat_slices:
  assumes "\<And>i j. i \<le> j \<Longrightarrow> f i \<le> f j"
  shows "concat (map (\<lambda>i. slice xs (f i) (f (Suc i))) [0..<n]) = slice xs (f 0) (f n)"
proof (induction n)
  case 0
  then show ?case by (simp add: slice_def)
next
  case (Suc n)
  have "slice xs (f 0) (f n) @ slice xs (f n) (f (Suc n)) = slice xs (f 0) (f (Suc n))"
    by (rule slice_append_adjacent) (simp_all add: assms)
  with Suc show ?case by simp
qed

lemma slice_whole: "slice xs 0 (length xs) = xs"
  by (simp add: slice_def)

lemma length_arange: "length (arange a b) = nat (b - a)"
  by (simp add: arange_def)

lemma nth_arange: "k < nat (b - a) \<Longrightarrow> arange a b ! k = a + int k"
  by (simp add: arange_def)

lemma set_arange: "set (arange a b) = {a..<b}"
proof -
  have "set (arange a b) = (\<lambda>k. a + int k) ` {0..<nat (b - a)}"
    by (simp add: arange_def)
  also have "\<dots> = {a..<b}"
  proof (rule set_eqI)
    fix x
    show "x \<in> (\<lambda>k. a + int k) ` {0..<nat (b - a)} \<longleftrightarrow> x \<in> {a..<b}"
    proof
      assume "x \<in> (\<lambda>k. a + int k) ` {0..<nat (b - a)}"
      then show "x \<in> {a..<b}" by auto
    next
      assume x: "x \<in> {a..<b}"
      then have "x = a + int (nat (x - a))" "nat (x - a) \<in> {0..<nat (b - a)}" by auto
      then show "x \<in> (\<lambda>k. a + int k) ` {0..<nat (b - a)}" by (rule image_eqI)
    qed
  qed
  finally show ?thesis .
qed

lemma slice_arange:
  assumes "s \<le> e" "e \<le> nat (b - a)"
  shows "slice (arange a b) s e = arange (a + int s) (a + int e)"
proof -
  have "slice (arange a b) s e = map (\<lambda>k. a + int k) (take (e - s) (drop s [0..<nat (b - a)]))"
    by (simp add: slice_def arange_def take_map drop_map)
  also have "take (e - s) (drop s [0..<nat (b - a)]) = [s..<e]"
    using assms by (simp add: take_upt)
  also have "map (\<lambda>k. a + int k) [s..<e] = map (\<lambda>k. (a + int s) + int k) [0..<e - s]"
    using assms by (auto simp: list_eq_iff_nth_eq)
  also have "\<dots> = arange (a + int s) (a + int e)"
  proof -
    have "nat (a + int e - (a + int s)) = e - s" using assms by linarith
    then show ?thesis by (simp add: arange_def)
  qed
  finally show ?thesis .
qed

text \<open>What \<^verbatim>\<open>np.array_split\<close> returns, section by section.\<close>

lemma array_split_eq:
  assumes "1 \<le> n"
  shows "array_split ary n =
           Inr (map (\<lambda>i. slice ary (div_point (length ary) (nat n) i)
                               (div_point (length ary) (nat n) (Suc i))) [0..<nat n])"
proof -
  have pos: "0 < nat n" using assms by simp
  have "map (\<lambda>i. slice ary (cumsum (section_sizes (length ary) (nat n)) ! i)
                      (cumsum (section_sizes (length ary) (nat n)) ! (i + 1))) [0..<nat n]
        = map (\<lambda>i. slice ary (div_point (length ary) (nat n) i)
                      (div_point (length ary) (nat n) (Suc i))) [0..<nat n]"
    by (rule map_cong[OF refl]) (simp add: div_points_nth[OF pos])
  then show ?thesis using assms by (simp add: array_split_def Let_def)
qed

lemma array_split_concat:
  assumes "1 \<le> n" "array_split ary n = Inr parts"
  shows "concat parts = ary" and "length parts = nat n"
proof -
  have pos: "0 < nat n" using assms by simp
  have parts: "parts = map (\<lambda>i. slice ary (div_point (length ary) (nat n) i)
                               (div_point (length ary) (nat n) (Suc i))) [0..<nat n]"
    using assms array_split_eq[OF assms(1), of ary] by simp
  show "length parts = nat n" by (simp add: parts)
  have "concat parts = slice ary (div_point (length ary) (nat n) 0) (div_point (length ary) (nat n) (nat n))"
    unfolding parts by (rule concat_slices) (rule div_point_mono)
  then show "concat parts = ary"
    by (simp add: div_point_0 div_point_n[OF pos] slice_whole)
qed

lemma array_split_same_lengths:
  assumes "1 \<le> n" "length xs = length ys"
    "array_split xs n = Inr ps" "array_split ys n = Inr qs" "i < nat n"
  shows "length (ps ! i) = length (qs ! i)"
proof -
  have "ps = map (\<lambda>i. slice xs (div_point (length xs) (nat n) i)
                        (div_point (length xs) (nat n) (Suc i))) [0..<nat n]"
    using assms(3) array_split_eq[OF assms(1), of xs] by simp
  then have p: "ps ! i = slice xs (div_point (length xs) (nat n) i) (div_point (length xs) (nat n) (Suc i))"
    using assms(5) by simp
  have "qs = map (\<lambda>i. slice ys (div_point (length ys) (nat n) i)
                        (div_point (length ys) (nat n) (Suc i))) [0..<nat n]"
    using assms(4) array_split_eq[OF assms(1), of ys] by simp
  then have q: "qs ! i = slice ys (div_point (length ys) (nat n) i) (div_point (length ys) (nat n) (Suc i))"
    using assms(5) by simp
  show ?thesis unfolding p q using assms(2) by (simp add: slice_def)
qed

lemma event_nos_eq:
  assumes "1 \<le> W"
  shows "event_nos W =
           Inr (map (\<lambda>i. arange (int (div_point (nat id_space_bound) (nat W) i))
                              (int (div_point (nat id_space_bound) (nat W) (Suc i)))) [0..<nat W])"
proof -
  have pos: "0 < nat W" using assms by simp
  have "slice (arange 0 id_space_bound) (div_point (nat id_space_bound) (nat W) i)
              (div_point (nat id_space_bound) (nat W) (Suc i))
        = arange (int (div_point (nat id_space_bound) (nat W) i))
                 (int (div_point (nat id_space_bound) (nat W) (Suc i)))"
    if "i < nat W" for i
  proof -
    have "div_point (nat id_space_bound) (nat W) (Suc i) \<le> div_point (nat id_space_bound) (nat W) (nat W)"
      using that by (intro div_point_mono) simp
    then have "div_point (nat id_space_bound) (nat W) (Suc i) \<le> nat (id_space_bound - 0)"
      by (simp add: div_point_n[OF pos])
    moreover have "div_point (nat id_space_bound) (nat W) i \<le> div_point (nat id_space_bound) (nat W) (Suc i)"
      by (intro div_point_mono) simp
    ultimately show ?thesis
      using slice_arange[of "div_point (nat id_space_bound) (nat W) i"
          "div_point (nat id_space_bound) (nat W) (Suc i)" id_space_bound 0]
      by simp
  qed
  then have "map (\<lambda>i. slice (arange 0 id_space_bound) (div_point (nat id_space_bound) (nat W) i)
                      (div_point (nat id_space_bound) (nat W) (Suc i))) [0..<nat W]
        = map (\<lambda>i. arange (int (div_point (nat id_space_bound) (nat W) i))
                              (int (div_point (nat id_space_bound) (nat W) (Suc i)))) [0..<nat W]"
    by (intro map_cong[OF refl]) simp
  then show ?thesis
    unfolding event_nos_def using array_split_eq[OF assms, of "arange 0 id_space_bound"]
    by (simp add: length_arange)
qed

subsection \<open>Event numbers of a worker\<close>

lemma map_of_set_cell: "map_of (set_cell k v r) k = Some v"
  by (induction r) auto

lemma event_no_of_set_cell: "event_no_of (set_cell ''event_no'' (SInt n) r) = Some n"
  by (simp add: event_no_of_def map_of_set_cell)

lemma apply_event_no_Inr:
  assumes "apply_event_no extraction enl ec = Inr df"
  shows "ec < length enl" and "\<forall>r \<in> set (rows df). event_no_of r = Some (enl ! ec)"
    and "length (rows df) = nrows extraction"
  using assms
  by (auto simp: apply_event_no_def Let_def event_no_of_set_cell split: if_splits)

lemma apply_event_no_ids:
  assumes "apply_event_no extraction enl ec = Inr df"
  shows "frame_ids_in (set enl) df"
  using apply_event_no_Inr[OF assms] by (auto simp: frame_ids_in_def)

lemma frame_ids_in_empty: "frame_ids_in S DataFrame_empty"
  by (simp add: frame_ids_in_def DataFrame_empty_def)

lemma frame_ids_in_append:
  "frame_ids_in S a \<Longrightarrow> frame_ids_in S b \<Longrightarrow> frame_ids_in S (df_append a b)"
  by (auto simp: frame_ids_in_def df_append_def)

lemma save_to_sql_ids:
  assumes "frame_ids_in S f" "frame_ids_in S t" "frame_ids_in S r"
  shows "case save_to_sql f t r i oc dn od pm of
           Inl (e, file) \<Rightarrow> shard_ids_in S (snd file)
         | Inr file \<Rightarrow> shard_ids_in S (snd file)"
  using assms by (simp add: save_to_sql_def shard_ids_in_def Let_def)

lemma flush_ids:
  assumes "wstate_ids_in S s"
  shows "outcome_ids_in S (flush st s)"
proof -
  have f: "frame_ids_in S (feature_big s)" "frame_ids_in S (truth_big s)"
    "frame_ids_in S (retro_big s)" and w: "\<forall>f \<in> set (written s). shard_ids_in S (snd f)"
    using assms by (simp_all add: wstate_ids_in_def)
  note sv = save_to_sql_ids[OF f, of "worker_id st" "output_count s" "db_name st" "outdir st"
      "pulsemap st"]
  show ?thesis
  proof (cases "save_to_sql (feature_big s) (truth_big s) (retro_big s) (worker_id st)
             (output_count s) (db_name st) (outdir st) (pulsemap st)")
    case (Inl a)
    then show ?thesis
      using sv w by (cases a) (auto simp: flush_def outcome_ids_in_def)
  next
    case (Inr b)
    then show ?thesis
      using sv w by (auto simp: flush_def outcome_ids_in_def wstate_ids_in_def frame_ids_in_empty)
  qed
qed

lemma flush_if_full_ids:
  assumes "wstate_ids_in S s"
  shows "outcome_ids_in S (flush_if_full st s)"
  using assms flush_ids[OF assms, of st]
  by (simp add: flush_if_full_def outcome_ids_in_def)

lemma frame_body_ids:
  assumes "wstate_ids_in (set (event_no_list st)) s" "frame_body st ex s = Inr s'"
  shows "wstate_ids_in (set (event_no_list st)) s'"
proof -
  obtain truths features retros where ex: "ex = (truths, features, retros)"
    by (cases ex) auto
  let ?S = "set (event_no_list st)"
  from assms(2) obtain truth where
    t: "apply_event_no truths (event_no_list st) (event_counter s) = Inr truth"
    by (auto simp: frame_body_def ex split: sum.splits)
  define s1 where "s1 = s\<lparr>truth_big := df_append (truth_big s) truth\<rparr>"
  have i1: "wstate_ids_in ?S s1"
    using assms(1) apply_event_no_ids[OF t]
    by (auto simp: wstate_ids_in_def s1_def frame_ids_in_append)
  define r2 where "r2 = (if length retros > 0
                then (case apply_event_no retros (event_no_list st) (event_counter s1) of
                        Inl e \<Rightarrow> Inl e
                      | Inr retro \<Rightarrow> Inr (s1\<lparr>retro_big := df_append (retro_big s1) retro\<rparr>))
                else Inr s1)"
  from assms(2) obtain s2 where s2: "r2 = Inr s2"
    by (auto simp: frame_body_def ex t r2_def s1_def Let_def split: sum.splits if_splits)
  have i2: "wstate_ids_in ?S s2"
    using s2 i1 apply_event_no_ids[of retros "event_no_list st" "event_counter s1"]
    by (auto simp: r2_def wstate_ids_in_def frame_ids_in_append split: if_splits sum.splits)
  from assms(2) obtain is_empty where ie: "isempty features = Inr is_empty"
    using s2 by (auto simp: frame_body_def ex t r2_def s1_def Let_def split: sum.splits)
  define r3 where "r3 = (if is_empty = False
                        then (case apply_event_no features (event_no_list st) (event_counter s2) of
                                Inl e \<Rightarrow> Inl e
                              | Inr features' \<Rightarrow>
                                  Inr (s2\<lparr>feature_big := df_append (feature_big s2) features'\<rparr>))
                        else Inr s2)"
  have fb: "frame_body st ex s =
     (case r3 of Inl e \<Rightarrow> Inl e
      | Inr s3 \<Rightarrow> Inr (s3\<lparr>event_counter := event_counter s3 + 1\<rparr>))"
    using s2 ie unfolding frame_body_def ex r3_def r2_def s1_def by (simp add: t Let_def)
  from assms(2) fb obtain s3 where s3: "r3 = Inr s3" by (auto split: sum.splits)
  have i3: "wstate_ids_in ?S s3"
    using s3 i2 apply_event_no_ids[of features "event_no_list st" "event_counter s2"]
    by (auto simp: r3_def wstate_ids_in_def frame_ids_in_append split: if_splits sum.splits)
  have i4: "wstate_ids_in ?S (s3\<lparr>event_counter := event_counter s3 + 1\<rparr>)"
    using i3 by (simp add: wstate_ids_in_def)
  from assms(2) fb s3 have "s' = s3\<lparr>event_counter := event_counter s3 + 1\<rparr>"
    by auto
  then show ?thesis using i4 by simp
qed

lemma frames_loop_ids:
  assumes "wstate_ids_in (set (event_no_list st)) s"
  shows "outcome_ids_in (set (event_no_list st)) (frames_loop st ps s)"
  using assms
proof (induction st ps s rule: frames_loop.induct)
  case (1 st s)
  then show ?case by (simp add: outcome_ids_in_def)
next
  case (2 st ps s)
  then show ?case by simp
next
  case (3 st ps s)
  then show ?case by simp
next
  case (4 st e ps s)
  then show ?case by (simp add: outcome_ids_in_def wstate_ids_in_def)
next
  case (5 st ex ps s)
  show ?case
  proof (cases "frame_body st ex s")
    case (Inl e)
    then show ?thesis using 5(2) by (simp add: outcome_ids_in_def wstate_ids_in_def)
  next
    case s': (Inr s')
    have i: "wstate_ids_in (set (event_no_list st)) s'"
      by (rule frame_body_ids[OF 5(2) s'])
    show ?thesis
    proof (cases "flush_if_full st s'")
      case (Inl a)
      then show ?thesis using s' flush_if_full_ids[OF i, of st] by simp
    next
      case (Inr s'')
      then have "wstate_ids_in (set (event_no_list st)) s''"
        using flush_if_full_ids[OF i, of st] by (simp add: outcome_ids_in_def)
      from 5(1)[OF s' Inr this] show ?thesis using s' Inr by simp
    qed
  qed
qed

lemma files_loop_ids:
  assumes "wstate_ids_in (set (event_no_list st)) s"
  shows "outcome_ids_in (set (event_no_list st)) (files_loop w st us s)"
  using assms
proof (induction us arbitrary: s)
  case Nil
  then show ?case by (simp add: outcome_ids_in_def)
next
  case (Cons u us)
  have err: "outcome_ids_in (set (event_no_list st)) (Inl (e, written s))" for e
    using Cons.prems by (simp add: outcome_ids_in_def wstate_ids_in_def)
  show ?case
  proof (cases "frames_loop st (case I3File w (input_files st ! u) of Inr p \<Rightarrow> p | Inl _ \<Rightarrow> []) s")
    case (Inl a)
    then show ?thesis
      using err frames_loop_ids[OF Cons.prems, of "(case I3File w (input_files st ! u) of Inr p \<Rightarrow> p | Inl _ \<Rightarrow> [])"]
      by (auto split: sum.splits)
  next
    case (Inr s')
    then have "wstate_ids_in (set (event_no_list st)) s'"
      using frames_loop_ids[OF Cons.prems, of "(case I3File w (input_files st ! u) of Inr p \<Rightarrow> p | Inl _ \<Rightarrow> [])"]
      by (simp add: outcome_ids_in_def)
    then have "wstate_ids_in (set (event_no_list st)) (s'\<lparr>file_counter := file_counter s' + 1\<rparr>)"
      by (simp add: wstate_ids_in_def)
    from Cons.IH[OF this] show ?thesis
      using err Inr by (auto split: sum.splits)
  qed
qed

lemma parallel_extraction_ids:
  "\<forall>f \<in> set (files_of (parallel_extraction w st)). shard_ids_in (set (event_no_list st)) (snd f)"
proof -
  let ?S = "set (event_no_list st)"
  have "wstate_ids_in ?S initial_wstate"
    by (simp add: wstate_ids_in_def initial_wstate_def frame_ids_in_empty)
  note fl = files_loop_ids[OF this, of w "[0..<length (input_files st)]"]
  have "outcome_ids_in ?S (parallel_extraction w st)"
  proof (cases "files_loop w st [0..<length (input_files st)] initial_wstate")
    case (Inl a)
    then show ?thesis using fl by (simp add: parallel_extraction_def)
  next
    case (Inr s)
    then have "wstate_ids_in ?S s" using fl by (simp add: outcome_ids_in_def)
    from flush_ids[OF this, of st] this show ?thesis
      using Inr by (simp add: parallel_extraction_def outcome_ids_in_def)
  qed
  then show ?thesis
    by (auto simp: files_of_def outcome_ids_in_def wstate_ids_in_def split: sum.splits)
qed
subsection \<open>The example inputs, evaluated\<close>

lemma example_split_files: "array_split [''/data/a.i3.zst'', ''/data/b.i3.zst'', ''/data/c.i3.zst''] 2 = Inr [[''/data/a.i3.zst'', ''/data/b.i3.zst''], [''/data/c.i3.zst'']]"
  by code_simp

lemma example_split_gcds: "array_split [''/data/GCD.i3.gz'', ''/data/GCD.i3.gz'', ''/data/GCD.i3.gz''] 2 = Inr [[''/data/GCD.i3.gz'', ''/data/GCD.i3.gz''], [''/data/GCD.i3.gz'']]"
  by code_simp

lemma example_div_points: "div_point 99999999 2 (Suc 0) = 50000000" "div_point 99999999 2 0 = 0" "div_point 99999999 2 (Suc (Suc 0)) = 99999999"
  by (simp_all add: div_point_def)


lemma example_event_nos: "event_nos 2 = Inr [arange 0 50000000, arange 50000000 99999999]"
proof -
  have "[0..<nat 2] = [0, Suc 0]" by (simp add: upt_conv_Cons numeral_2_eq_2)
  then show ?thesis
    using event_nos_eq[of 2] by (simp add: id_space_bound_def example_div_points)
qed

lemma example_find_files:
  "find_files failing_open_world [''/data''] ''/out'' ''db'' ''/rescue/GCD.i3.gz'' None
    = Inr ([''/data/a.i3.zst'', ''/data/b.i3.zst'', ''/data/c.i3.zst''],
           [''/data/GCD.i3.gz'', ''/data/GCD.i3.gz'', ''/data/GCD.i3.gz''],
           Some (''/out/db/config/i3files.csv'', [''/data/a.i3.zst'', ''/data/b.i3.zst'', ''/data/c.i3.zst'']))"
  by (simp add: find_files_def find_i3_files_def level_lists_def pairwiseshuffle_def
      failing_open_world_def example_world_def default_extensions_def has_extension_def
      is_i3_def lower_def lower_char_def path_join_def Let_def)

lemma example_settings_list:
  "worker_settings example_converter 2
     [''/data/a.i3.zst'', ''/data/b.i3.zst'', ''/data/c.i3.zst'']
     [''/data/GCD.i3.gz'', ''/data/GCD.i3.gz'', ''/data/GCD.i3.gz'']
   = Inr [\<lparr>input_files = [''/data/a.i3.zst'', ''/data/b.i3.zst''], worker_id = ''0'',
           gcd_files = [''/data/GCD.i3.gz'', ''/data/GCD.i3.gz''],
           event_no_list = arange 0 50000000, mode = ''oscNext'', pulsemap = ''SRTInIcePulses'',
           max_dict_size = 2, db_name = ''db'', outdir = ''/out''\<rparr>,
          \<lparr>input_files = [''/data/c.i3.zst''], worker_id = ''1'',
           gcd_files = [''/data/GCD.i3.gz''],
           event_no_list = arange 50000000 99999999, mode = ''oscNext'', pulsemap = ''SRTInIcePulses'',
           max_dict_size = 2, db_name = ''db'', outdir = ''/out''\<rparr>]"
proof -
  have "[0..<nat 2] = [0, Suc 0]" by (simp add: upt_conv_Cons numeral_2_eq_2)
  then show ?thesis
    by (simp add: worker_settings_def example_event_nos example_split_files example_split_gcds
        example_converter_def str_nat.simps digit_char_def)
qed


text \<open>The names of the examples are plain, and their headers can be created.\<close>

lemma plain_examples [simp]:
  "plain_name ''truth''" "plain_name ''RetroReco''" "plain_name ''event_no''"
  "plain_name ''SRTInIcePulses''" "plain_name ''energy''" "plain_name ''dom_x''"
  "plain_name ''azimuth_retro''" "plain_name ''event_no_SRTInIcePulses''"
  "table_name_ok ''truth''" "table_name_ok ''RetroReco''" "table_name_ok ''SRTInIcePulses''"
  by code_simp+

lemma lower_examples [simp]:
  "lower ''truth'' = ''truth''" "lower ''RetroReco'' = ''retroreco''"
  "lower ''event_no'' = ''event_no''" "lower ''SRTInIcePulses'' = ''srtinicepulses''"
  "lower ''energy'' = ''energy''" "lower ''dom_x'' = ''dom_x''"
  "lower ''azimuth_retro'' = ''azimuth_retro''"
  "lower ''event_no_SRTInIcePulses'' = ''event_no_srtinicepulses''"
  by code_simp+

text \<open>The definitions that evaluate a worker, and those that evaluate a merge.\<close>

lemmas worker_eval =
  parallel_extraction_def files_of_def initial_wstate_def
  example_frame_def frame_body_def flush_if_full_def apply_event_no_def length_arange nth_arange
  isempty_def nrows_def df_append_def DataFrame_empty_def len_def flush_def save_to_sql_def
  creatable_def shard_path_def str_nat.simps digit_char_def Let_def

lemmas merge_eval =
  merge_databases_def get_temporary_database_paths_def extract_column_names_def read_table_def
  create_empty_tables_def create_table_def attach_index_def run_sql_code_def new_database_def
  find_table_def column_decl_def extract_everything_def submit_truth_def submit_pulse_maps_def
  submit_retro_def creatable_def to_sql_def null_event_no_def event_no_of_def
  List.map_filter_def

lemma example_retro_files:
  "files_of (parallel_extraction retro_world retro_settings) =
     [(''/out/db/tmp/worker-1-0.db'',
       \<lparr>truth_table = Some \<lparr>columns = [''energy'', ''event_no''],
                        rows = [[(''energy'', SOther ''1''), (''event_no'', SInt 10)]]\<rparr>,
        retro_table = Some \<lparr>columns = [''azimuth_retro'', ''event_no''],
                             rows = [[(''azimuth_retro'', SOther ''0.1''), (''event_no'', SInt 10)],
                                     [(''azimuth_retro'', SOther ''0.2''), (''event_no'', SInt 10)]]\<rparr>,
        pulsemap_name = ''SRTInIcePulses'',
        pulsemap_table = Some \<lparr>columns = [''dom_x'', ''event_no''],
                           rows = [[(''dom_x'', SInt 1), (''event_no'', SInt 10)]]\<rparr>\<rparr>)]"
  by (simp add: worker_eval retro_world_def retro_settings_def example_world_def example_settings_def)


lemma example_plain_and_retro_files:
  "plain_and_retro_files =
     [(''/out/db/tmp/worker-0-0.db'',
       \<lparr>truth_table = Some \<lparr>columns = [''energy'', ''event_no''],
                        rows = [[(''energy'', SOther ''5''), (''event_no'', SInt 5)]]\<rparr>,
        retro_table = None,
        pulsemap_name = ''SRTInIcePulses'',
        pulsemap_table = Some \<lparr>columns = [''dom_x'', ''event_no''],
                           rows = [[(''dom_x'', SInt 1), (''event_no'', SInt 5)],
                                   [(''dom_x'', SInt 2), (''event_no'', SInt 5)]]\<rparr>\<rparr>),
      (''/out/db/tmp/worker-1-0.db'',
       \<lparr>truth_table = Some \<lparr>columns = [''energy'', ''event_no''],
                        rows = [[(''energy'', SOther ''2''), (''event_no'', SInt 10)]]\<rparr>,
        retro_table = Some \<lparr>columns = [''azimuth_retro'', ''event_no''],
                             rows = [[(''azimuth_retro'', SOther ''0.3''), (''event_no'', SInt 10)]]\<rparr>,
        pulsemap_name = ''SRTInIcePulses'',
        pulsemap_table = Some \<lparr>columns = [''dom_x'', ''event_no''],
                           rows = [[(''dom_x'', SInt 1), (''event_no'', SInt 10)]]\<rparr>\<rparr>)]"
  by (simp add: plain_and_retro_files_def worker_eval retro_world_def retro_settings_def
      example_world_def example_settings_def)

subsection \<open>Discovery\<close>


lemma pairwiseshuffle_lengths:
  "pairwiseshuffle w fs gs = Inr (fs', gs') \<Longrightarrow> length fs' = length gs'"
  by (auto simp: pairwiseshuffle_def Let_def split: if_splits)

lemma find_i3_files_lengths:
  "find_i3_files w dir es r = Inr (fs, gs) \<Longrightarrow> length fs = length gs"
  by (auto simp: find_i3_files_def pairwiseshuffle_lengths split: option.splits sum.splits prod.splits)

lemma paths_loop_lengths:
  "paths_loop w ps es r (fs0, gs0) = Inr (fs, gs) \<Longrightarrow> length fs0 = length gs0 \<Longrightarrow> length fs = length gs"
proof (induction ps arbitrary: fs0 gs0)
  case Nil
  then show ?case by simp
next
  case (Cons p ps)
  from Cons.prems(1) obtain fm gm where
    m: "find_i3_files w p es r = Inr (fm, gm)"
    and rest: "paths_loop w ps es r (fs0 @ fm, gs0 @ gm) = Inr (fs, gs)"
    by (auto split: sum.splits)
  show ?case
    using Cons.IH[OF rest] find_i3_files_lengths[OF m] Cons.prems(2) by simp
qed

lemma pairwiseshuffle_nonempty:
  assumes "sample_permutes w" "pairwiseshuffle w fs gs = Inr (fs', gs')" "fs \<noteq> []"
  shows "fs' \<noteq> []"
proof -
  from assms(2) have l: "length fs = length gs"
    and fs': "fs' = map fst (df_sample w (zip fs gs))"
    by (auto simp: pairwiseshuffle_def Let_def split: if_splits)
  have "mset (df_sample w (zip fs gs)) = mset (zip fs gs)"
    using assms(1) by (simp add: sample_permutes_def)
  then have "length (df_sample w (zip fs gs)) = length (zip fs gs)"
    by (metis size_mset)
  then show ?thesis using l assms(3) fs' by auto
qed

lemma find_files_lengths:
  assumes "find_files w ps od db r es = Inr (fs, gs, csv)"
  shows "length fs = length gs"
  using assms
  by (auto simp: find_files_def Let_def dest!: paths_loop_lengths pairwiseshuffle_lengths
      split: sum.splits if_splits prod.splits)

lemma find_files_empty:
  assumes "sample_permutes w" "find_files w ps od db r es = Inr ([], gs, csv)"
  shows "csv = None"
proof -
  obtain es' where es': "es' = (case es of None \<Rightarrow> default_extensions | Some e \<Rightarrow> e)" by simp
  from assms(2) obtain fs0 gs0 where
    pl: "paths_loop w ps es' r ([], []) = Inr (fs0, gs0)"
    by (auto simp: find_files_def Let_def es' split: sum.splits)
  show ?thesis
  proof (cases "fs0 = []")
    case True
    then show ?thesis using assms(2) pl by (simp add: find_files_def Let_def es'[symmetric])
  next
    case False
    then obtain fs1 gs1 where ps: "pairwiseshuffle w fs0 gs0 = Inr (fs1, gs1)" and "fs1 = []"
      using assms(2) pl by (auto simp: find_files_def Let_def es'[symmetric] split: sum.splits)
    with pairwiseshuffle_nonempty[OF assms(1) ps False] show ?thesis by simp
  qed
qed

lemma sample_permutes_example: "sample_permutes example_world"
  by (simp add: sample_permutes_def example_world_def)

text \<open>
  When \<^verbatim>\<open>find_files\<close> returns and has found no input file, the list of calibration files is
  empty too and no list of file names was saved; \<^verbatim>\<open>_processfiles\<close> prints the line that no
  files were found and returns: nothing is raised, the pool is not started, the merge is
  not entered and no final database exists. An empty directory is such a case.
\<close>

lemma no_files_found_when_returned:
  assumes "sample_permutes w"
    and "find_files w (self_paths self) (self_outdir self) (self_db_name self)
             (self_gcd_rescue self) None = Inr (input_files', gcd_files', csv)"
    and "input_files' = []"
  shows "gcd_files' = [] \<and> csv = None
       \<and> processfiles w self =
           \<lparr>printed = [CountingFiles (self_paths self), NoFilesFound (self_paths self)],
            raised = None, csv_file = None, async_result = None, tmp_files = [],
            final_database = None\<rparr>"
proof -
  have g: "gcd_files' = []" using find_files_lengths[OF assms(2)] assms(3) by simp
  have c: "csv = None" using find_files_empty[OF assms(1)] assms(2,3) by simp
  show ?thesis using assms(2,3) g c by (simp add: processfiles_def)
qed


lemma no_files_found_empty_directory:
  "sample_permutes empty_world
   \<and> find_files empty_world (self_paths example_converter) (self_outdir example_converter)
        (self_db_name example_converter) (self_gcd_rescue example_converter) None
       = Inr ([], [], None)
   \<and> processfiles empty_world example_converter =
           \<lparr>printed = [CountingFiles [''/data''], NoFilesFound [''/data'']],
            raised = None, csv_file = None, async_result = None, tmp_files = [],
            final_database = None\<rparr>"
proof -
  have h1: "sample_permutes empty_world"
    by (simp add: sample_permutes_def empty_world_def example_world_def)
  have h2: "find_files empty_world (self_paths example_converter) (self_outdir example_converter)
        (self_db_name example_converter) (self_gcd_rescue example_converter) None
       = Inr ([], [], None)"
    by (simp add: find_files_def find_i3_files_def level_lists_def pairwiseshuffle_def
        empty_world_def example_world_def example_converter_def Let_def)
  show ?thesis
    using no_files_found_when_returned[OF h1 h2] h1 h2 by (simp add: example_converter_def)
qed

subsection \<open>The settings of the workers\<close>

lemma worker_settings_total:
  assumes "1 \<le> W"
  shows "\<exists>sts. worker_settings self W fs gs = Inr sts \<and> length sts = nat W"
proof -
  obtain evs where "event_nos W = Inr evs" using event_nos_eq[OF assms] by blast
  moreover obtain fl where "array_split fs W = Inr fl" using array_split_eq[OF assms] by blast
  moreover obtain gl where "array_split gs W = Inr gl" using array_split_eq[OF assms] by blast
  ultimately show ?thesis by (simp add: worker_settings_def)
qed

subsection \<open>Creating the tables\<close>

lemma join_Cons: "join sep (x # xs) = x @ concat (map (\<lambda>y. sep @ y) xs)"
  by (induction xs arbitrary: x) auto

lemma query_columns_loop_Some:
  "0 < n \<Longrightarrow> query_columns_loop pm cols n (Some q)
     = Some (q @ concat (map (\<lambda>c. '', '' @ c @ decl_text (column_decl pm c)) cols))"
proof (induction cols arbitrary: n q)
  case Nil
  then show ?case by simp
next
  case (Cons c cols)
  have "query_columns_loop pm (c # cols) n (Some q)
          = query_columns_loop pm cols (n + 1) (Some (q @ '', '' @ c @ decl_text (column_decl pm c)))"
    using Cons.prems by (simp add: column_decl_def)
  also have "\<dots> = Some ((q @ '', '' @ c @ decl_text (column_decl pm c))
                       @ concat (map (\<lambda>c. '', '' @ c @ decl_text (column_decl pm c)) cols))"
    by (rule Cons.IH) simp
  finally show ?case by simp
qed

text \<open>The loop writes the declarations of the columns, separated by a comma and a space.\<close>

lemma query_columns_loop_join:
  "query_columns_loop pm cols 0 None
     = (if cols = [] then None
        else Some (join '', '' (map (\<lambda>c. c @ decl_text (column_decl pm c)) cols)))"
proof (cases cols)
  case Nil
  then show ?thesis by simp
next
  case (Cons c cs)
  have "query_columns_loop pm (c # cs) 0 None
          = query_columns_loop pm cs 1 (Some (c @ decl_text (column_decl pm c)))"
    by (simp add: column_decl_def)
  also have "\<dots> = Some ((c @ decl_text (column_decl pm c))
                       @ concat (map (\<lambda>c. '', '' @ c @ decl_text (column_decl pm c)) cs))"
    by (rule query_columns_loop_Some) simp
  finally show ?thesis
    using Cons by (simp add: join_Cons comp_def)
qed

lemma create_table_text:
  "cols \<noteq> [] \<Longrightarrow>
   ''PRAGMA foreign_keys=off;\<newline>CREATE TABLE '' @ name @ '' (''
     @ join '', '' (map (\<lambda>c. c @ decl_text (column_decl pm c)) cols)
     @ '');\<newline>PRAGMA foreign_keys=on;''
   = sql_text (CreateTable name (map (\<lambda>c. (c, column_decl pm c)) cols))"
  by (simp add: comp_def)

text \<open>Names.\<close>

lemma lower_append [simp]: "lower (a @ b) = lower a @ lower b"
  by (simp add: lower_def)

lemma length_lower [simp]: "length (lower a) = length a"
  by (simp add: lower_def)

lemma lower_event_no_prefix [simp]: "lower ''event_no_'' = ''event_no_''"
  by code_simp

lemma no_keyword_event_no: "''event_no_'' @ x \<notin> set sql_keywords"
  by (simp add: sql_keywords_def)

lemma id_char_event_no: "list_all id_char ''event_no_''" "id_start CHR ''e''"
  by code_simp+

lemma index_name_plain:
  assumes "plain_name n"
  shows "plain_name (''event_no_'' @ n)"
proof -
  have 1: "''event_no_'' @ n \<noteq> []" by simp
  have 2: "id_start (hd (''event_no_'' @ n))" using id_char_event_no(2) by simp
  have 3: "list_all id_char (''event_no_'' @ n)"
    using assms id_char_event_no(1) unfolding plain_name_def list_all_append by blast
  have 4: "lower (''event_no_'' @ n) \<notin> set sql_keywords"
    unfolding lower_append lower_event_no_prefix by (rule no_keyword_event_no)
  show ?thesis unfolding plain_name_def using 1 2 3 4 by blast
qed

lemma index_name_other:
  "lower (''event_no_'' @ n) \<noteq> ''truth''" "lower (''event_no_'' @ n) \<noteq> ''retroreco''"
  "lower (''event_no_'' @ n) \<noteq> lower n"
proof -
  show "lower (''event_no_'' @ n) \<noteq> ''truth''" "lower (''event_no_'' @ n) \<noteq> ''retroreco''"
    unfolding lower_append lower_event_no_prefix by simp_all
  have "length (lower (''event_no_'' @ n)) \<noteq> length (lower n)" by simp
  then show "lower (''event_no_'' @ n) \<noteq> lower n" by metis
qed

lemma find_table_snoc:
  "find_table (db\<lparr>tables := tables db @ [(n, t)]\<rparr>) m
     = (case find_table db m of Some t' \<Rightarrow> Some t'
        | None \<Rightarrow> if lower m = lower n then Some t else None)"
  by (simp add: find_table_def map_add_def split: option.splits)

lemma find_table_None: "find_table db m = None \<longleftrightarrow> lower m \<notin> set (map (lower \<circ> fst) (tables db))"
  by (force simp: find_table_def map_of_eq_None_iff image_iff)

text \<open>A table that is not a pulsemap table, and a pulsemap table with its index.\<close>

lemma create_table_plain:
  assumes "header_ok cols" "table_name_ok name"
    "lower name \<notin> set (map (lower \<circ> fst) (tables db))"
    "lower name \<notin> set (map (lower \<circ> fst) (indexes db))"
  shows "create_table db name cols False =
           Inr (db\<lparr>executed := executed db @
                      [sql_text (CreateTable name (map (\<lambda>c. (c, column_decl False c)) cols))],
                    tables := tables db @
                      [(name, \<lparr>decls = map (\<lambda>c. (c, column_decl False c)) cols, stored = []\<rparr>)]\<rparr>)"
proof -
  have ne: "cols \<noteq> []" using assms(1) by (simp add: header_ok_def)
  show ?thesis
    using assms create_table_text[OF ne, of name False]
    by (simp add: create_table_def query_columns_loop_join run_sql_code_def comp_def header_ok_def)
qed

lemma create_table_pulse_map:
  assumes "header_ok cols" "''event_no'' \<in> set cols" "table_name_ok name"
    "lower name \<notin> set (map (lower \<circ> fst) (tables db))"
    "lower name \<notin> set (map (lower \<circ> fst) (indexes db))"
    "lower (''event_no_'' @ name) \<notin> set (map (lower \<circ> fst) (tables db))"
    "lower (''event_no_'' @ name) \<notin> set (map (lower \<circ> fst) (indexes db))"
  shows "create_table db name cols True =
           Inr (db\<lparr>executed := executed db @
                      [sql_text (CreateTable name (map (\<lambda>c. (c, column_decl True c)) cols)),
                       sql_text (CreateIndex (''event_no_'' @ name) name ''event_no'')],
                    tables := tables db @
                      [(name, \<lparr>decls = map (\<lambda>c. (c, column_decl True c)) cols, stored = []\<rparr>)],
                    indexes := indexes db @ [(''event_no_'' @ name, name, ''event_no'')]\<rparr>)"
proof -
  have ne: "cols \<noteq> []" using assms(1) by (simp add: header_ok_def)
  have pn: "plain_name name" using assms(3) by (simp add: table_name_ok_def)
  let ?t = "\<lparr>decls = map (\<lambda>c. (c, column_decl True c)) cols, stored = []\<rparr>"
  let ?db1 = "db\<lparr>executed := executed db @
                      [sql_text (CreateTable name (map (\<lambda>c. (c, column_decl True c)) cols))],
                  tables := tables db @ [(name, ?t)]\<rparr>"
  have ft: "find_table ?db1 name = Some ?t"
    using assms(4) find_table_None[of db name]
    by (simp add: find_table_def map_add_def split: option.splits)
  have col: "lower ''event_no'' \<in> set (map (lower \<circ> fst) (decls ?t))"
    using assms(2) by (force simp: comp_def)
  have other: "lower (''event_no_'' @ name) \<noteq> lower name" by (rule index_name_other)
  have idx: "run_sql_code ?db1 (sql_text (CreateIndex (''event_no_'' @ name) name ''event_no''))
               (CreateIndex (''event_no_'' @ name) name ''event_no'')
             = Inr (?db1\<lparr>executed := executed ?db1
                               @ [sql_text (CreateIndex (''event_no_'' @ name) name ''event_no'')],
                          indexes := indexes ?db1 @ [(''event_no_'' @ name, name, ''event_no'')]\<rparr>)"
    unfolding run_sql_code_def
    using index_name_plain[OF pn] pn ft col other assms(6,7)
    by (simp del: lower_append)
  have tab: "run_sql_code db (sql_text (CreateTable name (map (\<lambda>c. (c, column_decl True c)) cols)))
               (CreateTable name (map (\<lambda>c. (c, column_decl True c)) cols)) = Inr ?db1"
    using assms by (simp add: run_sql_code_def comp_def header_ok_def)
  show ?thesis
    using ne tab idx
    by (simp add: create_table_def query_columns_loop_join attach_index_def comp_def)
qed

lemma create_empty_tables_eq:
  assumes "header_ok truth_columns" "header_ok pulse_map_columns"
    "''event_no'' \<in> set pulse_map_columns" "pulsemap_ok pulse_map"
    "1 < length retro_columns \<longrightarrow> header_ok retro_columns"
  shows "create_empty_tables new_database pulse_map truth_columns pulse_map_columns retro_columns =
     Inr \<lparr>executed =
            [sql_text (CreateTable ''truth'' (map (\<lambda>c. (c, column_decl False c)) truth_columns))]
            @ (if length retro_columns > 1
               then [sql_text (CreateTable ''RetroReco''
                                 (map (\<lambda>c. (c, column_decl False c)) retro_columns))]
               else [])
            @ [sql_text (CreateTable pulse_map (map (\<lambda>c. (c, column_decl True c)) pulse_map_columns)),
               sql_text (CreateIndex (''event_no_'' @ pulse_map) pulse_map ''event_no'')],
          tables =
            [(''truth'', \<lparr>decls = map (\<lambda>c. (c, column_decl False c)) truth_columns, stored = []\<rparr>)]
            @ (if length retro_columns > 1
               then [(''RetroReco'',
                      \<lparr>decls = map (\<lambda>c. (c, column_decl False c)) retro_columns, stored = []\<rparr>)]
               else [])
            @ [(pulse_map, \<lparr>decls = map (\<lambda>c. (c, column_decl True c)) pulse_map_columns, stored = []\<rparr>)],
          indexes = [(''event_no_'' @ pulse_map, pulse_map, ''event_no'')]\<rparr>"
proof -
  have pm: "table_name_ok pulse_map" "lower pulse_map \<noteq> ''truth''" "lower pulse_map \<noteq> ''retroreco''"
    using assms(4) by (simp_all add: pulsemap_ok_def)
  note io = index_name_other[of pulse_map]
  show ?thesis
  proof (cases "1 < length retro_columns")
    case True
    show ?thesis
      using assms(1,2,3,5) True pm io
      by (simp del: lower_append
          add: create_empty_tables_def create_table_plain create_table_pulse_map new_database_def)
  next
    case False
    show ?thesis
      using assms(1,2,3) False pm io
      by (simp del: lower_append
          add: create_empty_tables_def create_table_plain create_table_pulse_map new_database_def)
  qed
qed
subsection \<open>Appending to the final database\<close>

lemma find_table_update:
  "find_table (db\<lparr>tables := map (\<lambda>(n, t'). if lower n = k then (n, g t') else (n, t')) (tables db)\<rparr>) m
     = (if lower m = k then map_option g (find_table db m) else find_table db m)"
proof -
  have "map_of (map (\<lambda>(n, t). (lower n, t))
                  (map (\<lambda>(n, t'). if lower n = k then (n, g t') else (n, t')) xs)) m'
          = (if m' = k then map_option g (map_of (map (\<lambda>(n, t). (lower n, t)) xs) m')
             else map_of (map (\<lambda>(n, t). (lower n, t)) xs) m')" for xs m'
    by (induction xs) auto
  then show ?thesis by (simp add: find_table_def)
qed

lemma read_table_fixed [simp]:
  "read_table sh ''truth'' = truth_table sh" "read_table sh ''RetroReco'' = retro_table sh"
  by (simp_all add: read_table_def)

lemma read_table_pulsemap:
  "pulsemap_ok pm \<Longrightarrow>
   read_table sh pm = (if lower pm = lower (pulsemap_name sh) then pulsemap_table sh else None)"
  by (simp add: read_table_def pulsemap_ok_def table_name_ok_def)

text \<open>What \<^verbatim>\<open>to_sql\<close> leaves of the tables, whether it raises or not.\<close>

lemma to_sql_Inl: "to_sql db n df = Inl (e, db') \<Longrightarrow> db' = db"
  by (auto simp: to_sql_def split: option.splits if_splits)

lemma to_sql_other:
  "to_sql db n df = Inr db' \<Longrightarrow> lower m \<noteq> lower n \<Longrightarrow> find_table db' m = find_table db m"
  by (auto simp: to_sql_def find_table_update find_table_snoc split: option.splits if_splits)

lemma to_sql_existing:
  assumes "find_table db n = Some t" "to_sql db n df = Inr db'"
  shows "find_table db' n = Some (t\<lparr>stored := stored t @ rows df\<rparr>)"
    and "(''event_no'', IntegerPrimaryKeyNotNull) \<in> set (decls t)
           \<Longrightarrow> distinct (List.map_filter event_no_of (stored t @ rows df))"
  using assms
  by (auto simp: to_sql_def find_table_update split: option.splits if_splits)

lemma to_sql_missing:
  assumes "find_table db n = None" "to_sql db n df = Inr db'"
  shows "find_table db' n
           = Some \<lparr>decls = map (\<lambda>c. (c, Inferred)) (columns df), stored = rows df\<rparr>"
  using assms by (auto simp: to_sql_def find_table_snoc split: if_splits)

lemma to_sql_primary_key:
  assumes "find_table db n = Some t"
    "(''event_no'', IntegerPrimaryKeyNotNull) \<in> set (decls t)"
    "set (map lower (columns df)) \<subseteq> set (map (lower \<circ> fst) (decls t))"
    "\<not> distinct (List.map_filter event_no_of (stored t @ rows df))"
  shows "to_sql db n df = Inl (IntegrityError, db)"
  using assms by (simp add: to_sql_def)

lemma extract_everything_Inr:
  assumes "extract_everything sh pm = Inr (tr, fe, re)"
  shows "truth_table sh = Some tr" "re = retro_table sh" "read_table sh pm = Some fe"
  using assms by (auto simp: extract_everything_def split: option.splits)

lemma database_after_simps [simp]:
  "database_after (Inl (e, db)) = db" "database_after (Inr db) = db"
  by (simp_all add: database_after_def)

text \<open>
  A RetroReco table whose \<^verbatim>\<open>event_no\<close> is the primary key cannot take the auxiliary rows of
  the files when two of them, or one of them and a row of the table, share an event number.
\<close>

lemma merge_fails_on_duplicates:
  assumes "find_table db ''RetroReco'' = Some t"
    "(''event_no'', IntegerPrimaryKeyNotNull) \<in> set (decls t)"
    "lower pulse_map \<noteq> ''retroreco''"
    "distinct (List.map_filter event_no_of (stored t))"
    "\<not> distinct (List.map_filter event_no_of
                   (stored t @ concat (map (\<lambda>f. retro_rows (snd f)) db_files)))"
  shows "\<exists>e db'. merge_temporary_databases db db_files pulse_map = Inl (e, db')"
  using assms
proof (induction db_files arbitrary: db t)
  case Nil
  then show ?case by simp
next
  case (Cons f fs)
  show ?case
  proof (cases "extract_everything (snd f) pulse_map")
    case (Inl e)
    then show ?thesis by simp
  next
    case (Inr x)
    obtain tr fe re where x: "x = (tr, fe, re)" by (cases x) auto
    have re: "re = retro_table (snd f)"
      using extract_everything_Inr(2)[OF Inr[unfolded x]] .
    show ?thesis
    proof (cases "submit_truth db tr")
      case (Inl a)
      then show ?thesis using Inr x by (cases a) simp
    next
      case db1: (Inr db1)
      have t1: "find_table db1 ''RetroReco'' = Some t"
        using to_sql_other[OF db1[unfolded submit_truth_def], of "''RetroReco''"] Cons.prems(1)
        by simp
      show ?thesis
      proof (cases "submit_pulse_maps db1 fe pulse_map")
        case (Inl a)
        then show ?thesis using Inr x db1 by (cases a) simp
      next
        case db2: (Inr db2)
        have t2: "find_table db2 ''RetroReco'' = Some t"
          using to_sql_other[OF db2[unfolded submit_pulse_maps_def], of "''RetroReco''"]
            Cons.prems(3) t1 by simp
        show ?thesis
        proof (cases "submit_retro db2 re")
          case (Inl a)
          then show ?thesis using Inr x db1 db2 by (cases a) simp
        next
          case db3: (Inr db3)
          have step: "merge_temporary_databases db (f # fs) pulse_map
                        = merge_temporary_databases db3 fs pulse_map"
            using Inr x db1 db2 db3 by simp
          have "\<exists>t'. find_table db3 ''RetroReco'' = Some t'
                  \<and> decls t' = decls t
                  \<and> stored t' = stored t @ retro_rows (snd f)
                  \<and> distinct (List.map_filter event_no_of (stored t'))"
          proof (cases "retro_table (snd f)")
            case None
            then show ?thesis
              using db3 t2 re Cons.prems(4) by (simp add: submit_retro_def retro_rows_def)
          next
            case (Some r)
            show ?thesis
            proof (cases "len r > 0")
              case True
              then have ts: "to_sql db2 ''RetroReco'' r = Inr db3"
                using db3 Some re by (simp add: submit_retro_def)
              show ?thesis
                using to_sql_existing[OF t2 ts] Cons.prems(2) Some
                by (simp add: retro_rows_def)
            next
              case False
              then show ?thesis
                using db3 t2 Some re Cons.prems(4)
                by (simp add: submit_retro_def retro_rows_def len_def)
            qed
          qed
          then obtain t' where t': "find_table db3 ''RetroReco'' = Some t'"
            and d': "decls t' = decls t" and s': "stored t' = stored t @ retro_rows (snd f)"
            and di': "distinct (List.map_filter event_no_of (stored t'))"
            by blast
          have "\<exists>e db'. merge_temporary_databases db3 fs pulse_map = Inl (e, db')"
            using Cons.IH[OF t' _ Cons.prems(3) di'] Cons.prems(2,5) d' s' by simp
          then show ?thesis using step by simp
        qed
      qed
    qed
  qed
qed

lemma retro_scan_found:
  assumes "\<forall>g \<in> set pre. retro_table (snd g) = None" "retro_table (snd f) = Some t"
    "columns t \<noteq> []"
  shows "retro_scan (pre @ f # post) acc = Some (columns t)"
  using assms by (induction pre arbitrary: acc) auto

lemma retro_scan_none:
  assumes "\<forall>g \<in> set fs. retro_table (snd g) = None" "fs \<noteq> []"
  shows "retro_scan fs acc = Some []"
  using assms
proof (induction fs arbitrary: acc)
  case Nil
  then show ?case by simp
next
  case (Cons f fs)
  then show ?case by (cases fs) auto
qed

lemma retro_scan_Some: "fs \<noteq> [] \<Longrightarrow> \<exists>rc. retro_scan fs acc = Some rc"
proof (induction fs arbitrary: acc)
  case Nil
  then show ?case by simp
next
  case (Cons f fs)
  then show ?case by (cases fs) (auto split: option.splits)
qed

lemma retro_scan_cases:
  assumes "retro_scan fs acc = Some rc"
  shows "rc = [] \<or> acc = Some rc
         \<or> (\<exists>f \<in> set fs. \<exists>t. retro_table (snd f) = Some t \<and> rc = columns t)"
  using assms
proof (induction fs arbitrary: acc)
  case Nil
  then show ?case by simp
next
  case (Cons f fs)
  show ?case
  proof (cases "retro_table (snd f)")
    case None
    then have "retro_scan fs (Some []) = Some rc" using Cons.prems by simp
    from Cons.IH[OF this] show ?thesis by auto
  next
    case (Some t)
    show ?thesis
    proof (cases "columns t = []")
      case True
      then have "retro_scan fs (Some []) = Some rc" using Cons.prems Some by simp
      from Cons.IH[OF this] show ?thesis by auto
    next
      case False
      then have "rc = columns t" using Cons.prems Some by simp
      then show ?thesis using Some by auto
    qed
  qed
qed

lemma to_sql_columns_other:
  "lower m \<noteq> lower n \<Longrightarrow> table_columns (database_after (to_sql db n df)) m = table_columns db m"
proof (cases "to_sql db n df")
  case (Inl a)
  then show ?thesis by (cases a) (auto dest: to_sql_Inl)
next
  case (Inr db')
  assume "lower m \<noteq> lower n"
  from to_sql_other[OF Inr this] show ?thesis using Inr by (simp add: table_columns_def)
qed

lemma to_sql_columns_kept:
  assumes "table_columns db m = Some cs"
  shows "table_columns (database_after (to_sql db n df)) m = Some cs"
proof (cases "lower m = lower n")
  case False
  then show ?thesis using assms by (simp add: to_sql_columns_other)
next
  case True
  then have fm: "find_table db m = find_table db n" by (simp add: find_table_def)
  from assms obtain t where t: "find_table db n = Some t" and cs: "map fst (decls t) = cs"
    by (auto simp: table_columns_def fm)
  show ?thesis
  proof (cases "to_sql db n df")
    case (Inl a)
    then show ?thesis using assms by (cases a) (auto dest: to_sql_Inl)
  next
    case (Inr db')
    have "find_table db' m = find_table db' n" using True by (simp add: find_table_def)
    with to_sql_existing(1)[OF t Inr] show ?thesis
      using Inr cs by (simp add: table_columns_def)
  qed
qed

text \<open>One file of the merge, in terms of the database it leaves.\<close>

lemma merge_step_columns_kept:
  assumes "table_columns db m = Some cs"
  shows "table_columns (database_after (merge_temporary_databases db fs pm)) m = Some cs"
  using assms
proof (induction fs arbitrary: db)
  case Nil
  then show ?case by simp
next
  case (Cons f fs)
  show ?case
  proof (cases "extract_everything (snd f) pm")
    case (Inl e)
    then show ?thesis using Cons.prems by simp
  next
    case (Inr x)
    obtain tr fe re where x: "x = (tr, fe, re)" by (cases x) auto
    have k1: "table_columns (database_after (submit_truth db tr)) m = Some cs"
      unfolding submit_truth_def by (rule to_sql_columns_kept[OF Cons.prems])
    show ?thesis
    proof (cases "submit_truth db tr")
      case (Inl a)
      then show ?thesis using Inr x k1 by (cases a) simp
    next
      case db1: (Inr db1)
      have c1: "table_columns db1 m = Some cs" using k1 db1 by simp
      have k2: "table_columns (database_after (submit_pulse_maps db1 fe pm)) m = Some cs"
        unfolding submit_pulse_maps_def by (rule to_sql_columns_kept[OF c1])
      show ?thesis
      proof (cases "submit_pulse_maps db1 fe pm")
        case (Inl a)
        then show ?thesis using Inr x db1 k2 by (cases a) simp
      next
        case db2: (Inr db2)
        have c2: "table_columns db2 m = Some cs" using k2 db2 by simp
        have k3: "table_columns (database_after (submit_retro db2 re)) m = Some cs"
          using c2 to_sql_columns_kept[OF c2]
          by (auto simp: submit_retro_def split: option.splits)
        show ?thesis
        proof (cases "submit_retro db2 re")
          case (Inl a)
          then show ?thesis using Inr x db1 db2 k3 by (cases a) simp
        next
          case db3: (Inr db3)
          have c3: "table_columns db3 m = Some cs" using k3 db3 by simp
          show ?thesis using Cons.IH[OF c3] Inr x db1 db2 db3 by simp
        qed
      qed
    qed
  qed
qed

lemma merge_without_retro:
  assumes "\<forall>g \<in> set fs. retro_table (snd g) = None" "lower pm \<noteq> ''retroreco''"
  shows "table_columns (database_after (merge_temporary_databases db fs pm)) ''RetroReco''
           = table_columns db ''RetroReco''"
  using assms
proof (induction fs arbitrary: db)
  case Nil
  then show ?case by simp
next
  case (Cons f fs)
  show ?case
  proof (cases "extract_everything (snd f) pm")
    case (Inl e)
    then show ?thesis by simp
  next
    case (Inr x)
    obtain tr fe re where x: "x = (tr, fe, re)" by (cases x) auto
    have re: "re = None"
      using extract_everything_Inr(2)[OF Inr[unfolded x]] Cons.prems(1) by simp
    have k1: "table_columns (database_after (submit_truth db tr)) ''RetroReco''
                = table_columns db ''RetroReco''"
      unfolding submit_truth_def by (rule to_sql_columns_other) simp
    show ?thesis
    proof (cases "submit_truth db tr")
      case (Inl a)
      then show ?thesis using Inr x k1 by (cases a) simp
    next
      case db1: (Inr db1)
      have k2: "table_columns (database_after (submit_pulse_maps db1 fe pm)) ''RetroReco''
                = table_columns db1 ''RetroReco''"
        unfolding submit_pulse_maps_def
        by (rule to_sql_columns_other) (use Cons.prems(2) in simp)
      show ?thesis
      proof (cases "submit_pulse_maps db1 fe pm")
        case (Inl a)
        then show ?thesis using Inr x db1 k1 k2 by (cases a) simp
      next
        case db2: (Inr db2)
        have "table_columns (database_after (merge_temporary_databases db2 fs pm)) ''RetroReco''
                = table_columns db2 ''RetroReco''"
          using Cons.IH[of db2] Cons.prems by simp
        then show ?thesis
          using Inr x re db1 db2 k1 k2 by (simp add: submit_retro_def)
      qed
    qed
  qed
qed

lemma merge_append:
  "merge_temporary_databases db (xs @ ys) pm
     = (case merge_temporary_databases db xs pm of
          Inl e \<Rightarrow> Inl e
        | Inr db1 \<Rightarrow> merge_temporary_databases db1 ys pm)"
  by (induction xs arbitrary: db) (auto split: sum.splits prod.splits)

text \<open>
  Without a RetroReco table in the database, a merge that returns has let pandas create
  it from the first file that has auxiliary rows.
\<close>

lemma merge_creates_retro:
  assumes none: "table_columns db ''RetroReco'' = None"
    and pre: "\<forall>g \<in> set pre. retro_table (snd g) = None"
    and f: "retro_table (snd f) = Some t" "rows t \<noteq> []"
    and pm: "lower pm \<noteq> ''retroreco''"
    and ok: "merge_temporary_databases db (pre @ f # post) pm = Inr db'"
  shows "table_columns db' ''RetroReco'' = Some (columns t)"
proof -
  from ok obtain db0 where db0: "merge_temporary_databases db pre pm = Inr db0"
    and rest: "merge_temporary_databases db0 (f # post) pm = Inr db'"
    by (auto simp: merge_append split: sum.splits)
  have n0: "table_columns db0 ''RetroReco'' = None"
    using merge_without_retro[OF pre pm, of db] db0 none by simp
  from rest obtain tr fe re db1 db2 db3 where
    ex: "extract_everything (snd f) pm = Inr (tr, fe, re)"
    and db1: "submit_truth db0 tr = Inr db1"
    and db2: "submit_pulse_maps db1 fe pm = Inr db2"
    and db3: "submit_retro db2 re = Inr db3"
    and post: "merge_temporary_databases db3 post pm = Inr db'"
    by (auto split: sum.splits prod.splits)
  have re: "re = Some t" using extract_everything_Inr(2)[OF ex] f(1) by simp
  have n1: "table_columns db1 ''RetroReco'' = None"
    using to_sql_columns_other[of "''RetroReco''" "''truth''" db0 tr] db1 n0
    by (simp add: submit_truth_def)
  have n2: "table_columns db2 ''RetroReco'' = None"
    using to_sql_columns_other[of "''RetroReco''" pm db1 fe] db2 n1 pm
    by (simp add: submit_pulse_maps_def)
  then have m2: "find_table db2 ''RetroReco'' = None"
    by (simp add: table_columns_def)
  have ts: "to_sql db2 ''RetroReco'' t = Inr db3"
    using db3 f re by (simp add: submit_retro_def len_def)
  have c3: "table_columns db3 ''RetroReco'' = Some (columns t)"
    using to_sql_missing[OF m2 ts] by (simp add: table_columns_def comp_def)
  show ?thesis
    using merge_step_columns_kept[OF c3, of post pm] post by simp
qed
section \<open>The claims\<close>

text \<open>
  C1. For every worker count \<open>W \<ge> 1\<close> the allocation \<^verbatim>\<open>np.array_split(np.arange(0, 99999999, 1), W)\<close>
  returns \<open>W\<close> ranges whose concatenation is the whole interval from 0 up to 99999999:
  the \<open>i\<close>-th is the interval between two consecutive division points, every id of an
  earlier range lies below every id of a later one (so the ranges are disjoint, contiguous
  and increasing), and worker \<open>i\<close> of a run is given the \<open>i\<close>-th range and writes only
  rows whose \<^verbatim>\<open>event_no\<close> is drawn from it.
\<close>

theorem event_id_allocation:
  assumes "1 \<le> W"
  shows "\<exists>evs. event_nos W = Inr evs \<and> length evs = nat W
           \<and> concat evs = arange 0 id_space_bound
           \<and> (\<forall>i<nat W. evs ! i = arange (int (div_point (nat id_space_bound) (nat W) i))
                                         (int (div_point (nat id_space_bound) (nat W) (Suc i))))
           \<and> (\<forall>i<nat W. \<forall>j<nat W. i < j \<longrightarrow> (\<forall>a \<in> set (evs ! i). \<forall>b \<in> set (evs ! j). a < b))
           \<and> (\<forall>self fs gs sts w. worker_settings self W fs gs = Inr sts \<longrightarrow>
                 length sts = nat W
                 \<and> (\<forall>i<nat W. event_no_list (sts ! i) = evs ! i
                       \<and> (\<forall>f \<in> set (files_of (parallel_extraction w (sts ! i))).
                             shard_ids_in (set (evs ! i)) (snd f))))"
proof -
  let ?U = "nat id_space_bound"
  let ?lo = "\<lambda>i. int (div_point ?U (nat W) i)"
  define evs where "evs = map (\<lambda>i. arange (?lo i) (?lo (Suc i))) [0..<nat W]"
  have ev: "event_nos W = Inr evs"
    unfolding evs_def by (rule event_nos_eq[OF assms])
  have len: "length evs = nat W" by (simp add: evs_def)
  have nth: "evs ! i = arange (?lo i) (?lo (Suc i))" if "i < nat W" for i
    using that by (simp add: evs_def)
  have cc: "concat evs = arange 0 id_space_bound"
    using array_split_concat(1)[OF assms, of "arange 0 id_space_bound" evs] ev
    by (simp add: event_nos_def)
  have mono: "a < b" if "i < nat W" "j < nat W" "i < j" "a \<in> set (evs ! i)" "b \<in> set (evs ! j)"
    for i j a b
  proof -
    have "a < ?lo (Suc i)" using that by (simp add: nth set_arange)
    moreover have "?lo (Suc i) \<le> ?lo j"
      using that(3) div_point_mono[of "Suc i" j ?U "nat W"] by simp
    moreover have "?lo j \<le> b" using that by (simp add: nth set_arange)
    ultimately show ?thesis by linarith
  qed
  have run: "length sts = nat W
       \<and> (\<forall>i<nat W. event_no_list (sts ! i) = evs ! i
             \<and> (\<forall>f \<in> set (files_of (parallel_extraction w (sts ! i))).
                    shard_ids_in (set (evs ! i)) (snd f)))"
    if "worker_settings self W fs gs = Inr sts" for self fs gs sts w
  proof -
    from that obtain file_list gcd_file_list where
      sts: "sts = map (\<lambda>i. \<lparr>input_files = file_list ! i, worker_id = str_nat i,
                            gcd_files = gcd_file_list ! i, event_no_list = evs ! i,
                            mode = self_mode self, pulsemap = self_pulsemap self,
                            max_dict_size = self_max_dict_size self,
                            db_name = self_db_name self, outdir = self_outdir self\<rparr>)
                   [0..<nat W]"
      by (auto simp: worker_settings_def ev split: sum.splits)
    have l: "length sts = nat W" by (simp add: sts)
    have e: "event_no_list (sts ! i) = evs ! i" if "i < nat W" for i
      using that by (simp add: sts)
    show ?thesis
      using l e parallel_extraction_ids[of w "sts ! i" for i] by metis
  qed
  show ?thesis
    using ev len cc nth mono run by blast
qed

theorem event_id_allocation_witness:
  "(1::int) \<le> 2
   \<and> event_nos 2 = Inr [arange 0 50000000, arange 50000000 99999999]
   \<and> (\<exists>sts. worker_settings example_converter 2
               [''/data/a.i3.zst'', ''/data/b.i3.zst'', ''/data/c.i3.zst'']
               [''/data/GCD.i3.gz'', ''/data/GCD.i3.gz'', ''/data/GCD.i3.gz''] = Inr sts
         \<and> length sts = 2
         \<and> event_no_list (sts ! 1) = arange 50000000 99999999
         \<and> list_all (\<lambda>f. shard_ids_in {50000000..<99999999} (snd f))
               (files_of (parallel_extraction example_world (sts ! 1)))
         \<and> map (\<lambda>f. map event_no_of (truth_rows (snd f)))
               (files_of (parallel_extraction example_world (sts ! 1))) = [[Some 50000000]])"
proof -
  from event_id_allocation[of 2] obtain evs where
    ev: "event_nos 2 = Inr evs" and len: "length evs = 2"
    and nth: "\<forall>i<2. evs ! i = arange (int (div_point (nat id_space_bound) 2 i))
                                    (int (div_point (nat id_space_bound) 2 (Suc i)))"
    and run: "\<forall>self fs gs sts w. worker_settings self 2 fs gs = Inr sts \<longrightarrow>
                 length sts = 2
                 \<and> (\<forall>i<2. event_no_list (sts ! i) = evs ! i
                       \<and> (\<forall>f \<in> set (files_of (parallel_extraction w (sts ! i))).
                             shard_ids_in (set (evs ! i)) (snd f)))"
    by auto
  have e0: "evs ! 0 = arange 0 50000000" and e1: "evs ! 1 = arange 50000000 99999999"
    using nth by (simp_all add: id_space_bound_def example_div_points)
  have evs: "evs = [arange 0 50000000, arange 50000000 99999999]"
    using len e0 e1 by (auto simp: list_eq_iff_nth_eq less_Suc_eq numeral_2_eq_2)
  let ?fs = "[''/data/a.i3.zst'', ''/data/b.i3.zst'', ''/data/c.i3.zst'']"
  let ?gs = "[''/data/GCD.i3.gz'', ''/data/GCD.i3.gz'', ''/data/GCD.i3.gz'']"
  obtain sts where sts: "worker_settings example_converter 2 ?fs ?gs = Inr sts"
    by (simp add: worker_settings_def ev example_split_files example_split_gcds)
  have st1: "sts ! 1 = \<lparr>input_files = [''/data/c.i3.zst''], worker_id = ''1'',
                         gcd_files = [''/data/GCD.i3.gz''], event_no_list = arange 50000000 99999999,
                         mode = ''oscNext'', pulsemap = ''SRTInIcePulses'', max_dict_size = 2,
                         db_name = ''db'', outdir = ''/out''\<rparr>"
    using sts by (auto simp: worker_settings_def ev evs example_split_files example_split_gcds example_converter_def
        str_nat.simps digit_char_def)
  have files: "map (\<lambda>f. map event_no_of (truth_rows (snd f)))
               (files_of (parallel_extraction example_world (sts ! 1))) = [[Some 50000000]]"
    unfolding st1
    by (simp add: parallel_extraction_def files_of_def initial_wstate_def example_world_def
        example_frame_def frame_body_def apply_event_no_def length_arange nth_arange isempty_def
        nrows_def df_append_def DataFrame_empty_def len_def flush_def flush_if_full_def
        save_to_sql_def creatable_def truth_rows_def event_no_of_def Let_def)
  have all: "length sts = 2 \<and> (\<forall>i<2. event_no_list (sts ! i) = evs ! i
                       \<and> (\<forall>f \<in> set (files_of (parallel_extraction example_world (sts ! i))).
                             shard_ids_in (set (evs ! i)) (snd f)))"
    using run sts by blast
  then have r1: "event_no_list (sts ! 1) = evs ! 1
      \<and> (\<forall>f \<in> set (files_of (parallel_extraction example_world (sts ! 1))).
                             shard_ids_in (set (evs ! 1)) (snd f))"
    by simp
  have "list_all (\<lambda>f. shard_ids_in {50000000..<99999999} (snd f))
               (files_of (parallel_extraction example_world (sts ! 1)))"
    using r1 unfolding e1 set_arange list_all_iff by blast
  moreover have "event_no_list (sts ! 1) = arange 50000000 99999999"
    using r1 e1 by simp
  ultimately show ?thesis
    using ev evs sts all files by simp
qed
text \<open>
  C2, as amended. Let the list of temporary files be not empty, let its first file be
  complete (it has the truth table and the pulsemap table), and let SQLite read the
  pulsemap name and the headers as written. Then the headers are inferred and the tables
  are created. If \<open>f\<close> is the first file with a RetroReco table, whatever files come
  before it, the inferred auxiliary header is the header of that table; when it has more
  than one column, the created database has a RetroReco table with exactly these
  columns, and still has it however the merge ends; and when the table of \<open>f\<close> has rows
  and the merge returns, the merged database has a RetroReco table with exactly these
  columns. If no file has a RetroReco table, the inferred auxiliary header is empty and
  the database has no RetroReco table, before the merge and after it.
\<close>

theorem retro_schema_coverage:
  assumes "db_files \<noteq> []"
    and "complete_file pulse_map (snd (hd db_files))"
    and "pulsemap_ok pulse_map"
    and "list_all (\<lambda>f. retro_header_ok (snd f)) db_files"
  shows "\<exists>truth_columns pulse_map_columns retro_columns db.
           extract_column_names db_files pulse_map
             = Inr (truth_columns, pulse_map_columns, retro_columns)
         \<and> create_empty_tables new_database pulse_map truth_columns pulse_map_columns
             retro_columns = Inr db
         \<and> (\<forall>pre f post t.
               db_files = pre @ f # post \<and> (\<forall>g \<in> set pre. retro_table (snd g) = None)
               \<and> retro_table (snd f) = Some t \<longrightarrow>
               retro_columns = columns t
               \<and> (1 < length (columns t) \<longrightarrow>
                    table_columns db ''RetroReco'' = Some (columns t)
                    \<and> table_columns
                         (database_after (merge_temporary_databases db db_files pulse_map))
                         ''RetroReco'' = Some (columns t))
               \<and> (rows t \<noteq> [] \<longrightarrow>
                    (\<forall>db'. merge_temporary_databases db db_files pulse_map = Inr db' \<longrightarrow>
                           table_columns db' ''RetroReco'' = Some (columns t))))
         \<and> ((\<forall>g \<in> set db_files. retro_table (snd g) = None) \<longrightarrow>
               retro_columns = []
               \<and> table_columns db ''RetroReco'' = None
               \<and> table_columns
                    (database_after (merge_temporary_databases db db_files pulse_map))
                    ''RetroReco'' = None)"
proof -
  obtain d ds where dd: "db_files = d # ds" using assms(1) by (cases db_files) auto
  from assms(2) obtain truth features where
    tt: "truth_table (snd d) = Some truth" and pt: "pulsemap_table (snd d) = Some features"
    and nm: "lower (pulsemap_name (snd d)) = lower pulse_map"
    and tc: "header_ok (columns truth)" and pc: "header_ok (columns features)"
    and ev: "''event_no'' \<in> set (columns features)"
    by (auto simp: complete_file_def dd split: option.splits)
  let ?tc = "columns truth" and ?pc = "columns features"
  have pm: "lower pulse_map \<noteq> ''retroreco''" using assms(3) by (simp add: pulsemap_ok_def)
  obtain rc where rc: "retro_scan db_files None = Some rc"
    using retro_scan_Some[OF assms(1)] by blast
  have ex: "extract_column_names db_files pulse_map = Inr (?tc, ?pc, rc)"
    using tt pt nm rc dd read_table_pulsemap[OF assms(3), of "snd d"]
    by (simp add: extract_column_names_def Let_def)
  have rok: "1 < length rc \<longrightarrow> header_ok rc"
  proof
    assume l: "1 < length rc"
    from retro_scan_cases[OF rc] l obtain f t where
      "f \<in> set db_files" "retro_table (snd f) = Some t" "rc = columns t"
      by auto
    then show "header_ok rc"
      using assms(4) by (auto simp: list_all_iff retro_header_ok_def)
  qed
  note ce = create_empty_tables_eq[OF tc pc ev assms(3) rok]
  obtain db where db: "create_empty_tables new_database pulse_map ?tc ?pc rc = Inr db"
    and tcol: "table_columns db ''RetroReco'' = (if 1 < length rc then Some rc else None)"
    unfolding ce using pm by (simp add: table_columns_def find_table_def comp_def)
  have found: "rc = columns t
               \<and> (1 < length (columns t) \<longrightarrow>
                    table_columns db ''RetroReco'' = Some (columns t)
                    \<and> table_columns
                         (database_after (merge_temporary_databases db db_files pulse_map))
                         ''RetroReco'' = Some (columns t))
               \<and> (rows t \<noteq> [] \<longrightarrow>
                    (\<forall>db'. merge_temporary_databases db db_files pulse_map = Inr db' \<longrightarrow>
                           table_columns db' ''RetroReco'' = Some (columns t)))"
    if h: "db_files = pre @ f # post" "\<forall>g \<in> set pre. retro_table (snd g) = None"
      "retro_table (snd f) = Some t"
    for pre f post t
  proof -
    have "f \<in> set db_files" using h(1) by simp
    then have ne: "columns t \<noteq> []"
      using assms(4) h(3) by (auto simp: list_all_iff retro_header_ok_def header_ok_def)
    have r: "rc = columns t"
      using retro_scan_found[OF h(2,3) ne, of post None] rc h(1) by simp
    have many: "table_columns db ''RetroReco'' = Some (columns t)
        \<and> table_columns (database_after (merge_temporary_databases db db_files pulse_map))
            ''RetroReco'' = Some (columns t)"
      if "1 < length (columns t)"
      using tcol r that merge_step_columns_kept[of db "''RetroReco''" "columns t" db_files pulse_map]
      by simp
    have merged: "table_columns db' ''RetroReco'' = Some (columns t)"
      if "rows t \<noteq> []" "merge_temporary_databases db db_files pulse_map = Inr db'" for db'
    proof (cases "1 < length (columns t)")
      case True
      then show ?thesis using many that(2) by simp
    next
      case False
      then have "table_columns db ''RetroReco'' = None" using tcol r by simp
      from merge_creates_retro[OF this h(2,3) that(1) pm that(2)[unfolded h(1)]]
      show ?thesis .
    qed
    show ?thesis using r many merged by blast
  qed
  have none: "rc = [] \<and> table_columns db ''RetroReco'' = None
               \<and> table_columns
                    (database_after (merge_temporary_databases db db_files pulse_map))
                    ''RetroReco'' = None"
    if h: "\<forall>g \<in> set db_files. retro_table (snd g) = None"
  proof -
    have r: "rc = []" using retro_scan_none[OF h assms(1), of None] rc by simp
    then have n: "table_columns db ''RetroReco'' = None" using tcol by simp
    then show ?thesis using r merge_without_retro[OF h pm, of db] by simp
  qed
  show ?thesis
    using ex db found none by (intro exI[of _ ?tc] exI[of _ ?pc] exI[of _ rc] exI[of _ db]) blast
qed

theorem retro_schema_coverage_witness:
  "plain_and_retro_files \<noteq> []
   \<and> complete_file ''SRTInIcePulses'' (snd (hd plain_and_retro_files))
   \<and> pulsemap_ok ''SRTInIcePulses''
   \<and> list_all (\<lambda>f. retro_header_ok (snd f)) plain_and_retro_files
   \<and> map (\<lambda>f. map_option columns (retro_table (snd f))) plain_and_retro_files
       = [None, Some [''azimuth_retro'', ''event_no'']]
   \<and> extract_column_names plain_and_retro_files ''SRTInIcePulses''
       = Inr ([''energy'', ''event_no''], [''dom_x'', ''event_no''], [''azimuth_retro'', ''event_no''])
   \<and> (\<exists>db db'. create_empty_tables new_database ''SRTInIcePulses'' [''energy'', ''event_no'']
                   [''dom_x'', ''event_no''] [''azimuth_retro'', ''event_no''] = Inr db
          \<and> table_columns db ''RetroReco'' = Some [''azimuth_retro'', ''event_no'']
          \<and> merge_temporary_databases db plain_and_retro_files ''SRTInIcePulses'' = Inr db'
          \<and> table_columns db' ''RetroReco'' = Some [''azimuth_retro'', ''event_no''])"
proof -
  let ?fs = plain_and_retro_files
  let ?pre = "[hd plain_and_retro_files]" and ?f = "plain_and_retro_files ! 1"
  let ?t = "\<lparr>columns = [''azimuth_retro'', ''event_no''],
             rows = [[(''azimuth_retro'', SOther ''0.3''), (''event_no'', SInt 10)]]\<rparr>"
  have ho: "header_ok [''energy'', ''event_no'']" "header_ok [''dom_x'', ''event_no'']"
    "header_ok [''azimuth_retro'', ''event_no'']"
    by code_simp+
  have h1: "?fs \<noteq> []"
    and h2: "complete_file ''SRTInIcePulses'' (snd (hd ?fs))"
    and h4: "list_all (\<lambda>f. retro_header_ok (snd f)) ?fs"
    and rt: "map (\<lambda>f. map_option columns (retro_table (snd f))) ?fs
               = [None, Some [''azimuth_retro'', ''event_no'']]"
    by (simp_all add: example_plain_and_retro_files complete_file_def retro_header_ok_def ho)
  have h3: "pulsemap_ok ''SRTInIcePulses''" by code_simp
  have split: "?fs = ?pre @ ?f # []" "\<forall>g \<in> set ?pre. retro_table (snd g) = None"
    "retro_table (snd ?f) = Some ?t" "1 < length (columns ?t)"
    by (simp_all add: example_plain_and_retro_files)
  have ex: "extract_column_names ?fs ''SRTInIcePulses''
       = Inr ([''energy'', ''event_no''], [''dom_x'', ''event_no''], [''azimuth_retro'', ''event_no''])"
    by (simp add: example_plain_and_retro_files extract_column_names_def read_table_def)
  from retro_schema_coverage[OF h1 h2 h3 h4] obtain db where
    db: "create_empty_tables new_database ''SRTInIcePulses'' [''energy'', ''event_no'']
           [''dom_x'', ''event_no''] [''azimuth_retro'', ''event_no''] = Inr db"
    and found: "\<forall>pre f post t.
               ?fs = pre @ f # post \<and> (\<forall>g \<in> set pre. retro_table (snd g) = None)
               \<and> retro_table (snd f) = Some t \<longrightarrow>
               (1 < length (columns t) \<longrightarrow>
                    table_columns db ''RetroReco'' = Some (columns t)
                    \<and> table_columns
                         (database_after (merge_temporary_databases db ?fs ''SRTInIcePulses''))
                         ''RetroReco'' = Some (columns t))"
    unfolding ex by auto
  have tc: "table_columns db ''RetroReco'' = Some [''azimuth_retro'', ''event_no'']"
    and after: "table_columns (database_after (merge_temporary_databases db ?fs ''SRTInIcePulses''))
                  ''RetroReco'' = Some [''azimuth_retro'', ''event_no'']"
    using found[rule_format, of ?pre ?f "[]" ?t] split by simp_all
  have "\<exists>db'. merge_temporary_databases db ?fs ''SRTInIcePulses'' = Inr db'"
    using db
    by (auto simp: example_plain_and_retro_files merge_eval len_def)
  then obtain db' where m: "merge_temporary_databases db ?fs ''SRTInIcePulses'' = Inr db'" by blast
  then have "table_columns db' ''RetroReco'' = Some [''azimuth_retro'', ''event_no'']"
    using after by simp
  then show ?thesis using h1 h2 h3 h4 rt ex db tc m by blast
qed

text \<open>
  C2 as stated fails when the first temporary file is not complete. A worker whose batch
  holds only frames with an empty pulse fragment raises while it writes the file, after
  the truth table and the RetroReco table and before the pulsemap table; the merge starts
  all the same, cannot read the pulsemap header, and no final database is made, although
  the file has auxiliary rows. It fails too when SQLite does not read a name as written:
  with an auxiliary attribute named \<^verbatim>\<open>order\<close> the creation of the RetroReco table raises
  and the final database is left with the truth table alone.
\<close>

theorem retro_schema_coverage_counterexample:
  "map_sum (\<lambda>(e, fs). (e, map (\<lambda>f. (map_option columns (retro_table (snd f)),
                                      length (retro_rows (snd f)),
                                      pulsemap_table (snd f))) fs))
           (\<lambda>s. ()) (parallel_extraction dark_retro_world retro_settings)
     = Inl (OperationalError, [(Some [''azimuth_retro'', ''event_no''], 1, None)])
   \<and> raised (merge_databases example_world example_converter
                (run_with (files_of (parallel_extraction dark_retro_world retro_settings))))
       = Some DatabaseError
   \<and> final_database (merge_databases example_world example_converter
                (run_with (files_of (parallel_extraction dark_retro_world retro_settings))))
       = None
   \<and> map (\<lambda>f. (map_option columns (retro_table (snd f)), length (retro_rows (snd f))))
        (files_of (parallel_extraction order_retro_world retro_settings))
       = [(Some [''event_no'', ''order''], 1)]
   \<and> raised (merge_databases example_world example_converter
                (run_with (files_of (parallel_extraction order_retro_world retro_settings))))
       = Some OperationalError
   \<and> map_option (\<lambda>db. map fst (tables db))
        (final_database (merge_databases example_world example_converter
           (run_with (files_of (parallel_extraction order_retro_world retro_settings)))))
       = Some [''truth'']"
  by code_simp

text \<open>
  C3, as amended. Only \<^verbatim>\<open>pop_physics\<close> is called inside the \<^verbatim>\<open>try\<close>. A call of it that raises
  is skipped and the loop goes on with the rest of the file: the outcome is that of the
  file without that entry. An exception of \<^verbatim>\<open>process_frame\<close>, or of the body that numbers
  and buffers the fragments, is not caught: it ends the loop at that frame and leaves the
  worker, with the files written before.
\<close>

theorem frame_errors:
  "frames_loop st (pre @ PopRaises # post) s = frames_loop st (pre @ post) s
   \<and> frames_loop st (PopFrame (Inl e) # post) s = Inl (e, written s)
   \<and> (frame_body st ex s = Inl e \<longrightarrow>
        frames_loop st (PopFrame (Inr ex) # post) s = Inl (e, written s))"
proof (intro conjI)
  show "frames_loop st (pre @ PopRaises # post) s = frames_loop st (pre @ post) s"
  proof (induction st pre s rule: frames_loop.induct)
    case (5 st ex ps s)
    then show ?case
      by (cases "frame_body st ex s") (auto split: sum.splits)
  qed simp_all
  show "frames_loop st (PopFrame (Inl e) # post) s = Inl (e, written s)"
    by simp
  show "frame_body st ex s = Inl e \<longrightarrow>
          frames_loop st (PopFrame (Inr ex) # post) s = Inl (e, written s)"
    by simp
qed

theorem frame_errors_witness:
  "frames_loop example_settings ([example_frame ''1'' False] @ PopRaises # [example_frame ''2'' True])
      initial_wstate
    = frames_loop example_settings ([example_frame ''1'' False] @ [example_frame ''2'' True]) initial_wstate
   \<and> frame_body example_settings ([], [], []) initial_wstate = Inl KeyError
   \<and> frames_loop example_settings (PopFrame (Inr ([], [], [])) # [example_frame ''2'' True])
        initial_wstate = Inl (KeyError, [])"
proof -
  have k: "frame_body example_settings ([], [], []) initial_wstate = Inl KeyError"
    by (simp add: frame_body_def apply_event_no_def isempty_def example_settings_def
        initial_wstate_def nrows_def Let_def)
  show ?thesis
    using frame_errors[where st = example_settings and pre = "[example_frame ''1'' False]"
        and post = "[example_frame ''2'' True]" and s = initial_wstate and ex = "([], [], [])"
        and e = KeyError] k
    by (simp add: initial_wstate_def)
qed

text \<open>
  C3 as stated fails for an exception of the extraction: the frame after the failing one
  is not processed, where the same file without the failing frame gives one numbered frame.
\<close>

theorem frame_errors_counterexample:
  "frames_loop example_settings [PopFrame (Inl ExtractorError), example_frame ''1'' False]
     initial_wstate = Inl (ExtractorError, [])
   \<and> map_sum id event_counter
       (frames_loop example_settings [example_frame ''1'' False] initial_wstate) = Inr 1"
  by (simp add: example_frame_def example_settings_def initial_wstate_def frame_body_def
      flush_if_full_def apply_event_no_def isempty_def nrows_def df_append_def
      DataFrame_empty_def len_def Let_def)

text \<open>
  C4, as amended. A failure to load the calibration data or to open an event file ends the
  worker at that file, whatever files remain, with the files it had written: the loop over
  the files raises, and so does \<^verbatim>\<open>parallel_extraction\<close>. The orchestrator does not see it.
  When discovery has found a file and at least one worker is asked for, the settings are
  built, the outcomes of the workers stay in the result object of \<^verbatim>\<open>map_async\<close>, and
  \<^verbatim>\<open>_processfiles\<close> goes on to \<^verbatim>\<open>_merge_databases\<close> with nothing raised, whatever those
  outcomes are.
\<close>

theorem open_failure_absorbed:
  assumes "find_files w (self_paths self) (self_outdir self) (self_db_name self)
             (self_gcd_rescue self) None = Inr (input_files', gcd_files', csv)"
    and "input_files' \<noteq> []" and "1 \<le> self_workers self"
  shows "(\<forall>st u us s e. u < length (gcd_files st)
            \<and> load_geospatial_data w (gcd_files st ! u) = Inl e
            \<longrightarrow> files_loop w st (u # us) s = Inl (e, written s))
       \<and> (\<forall>st u us s e c. u < length (gcd_files st) \<and> u < length (input_files st)
            \<and> load_geospatial_data w (gcd_files st ! u) = Inr c
            \<and> I3File w (input_files st ! u) = Inl e
            \<longrightarrow> files_loop w st (u # us) s = Inl (e, written s))
       \<and> (\<forall>st x. files_loop w st [0..<length (input_files st)] initial_wstate = Inl x
            \<longrightarrow> parallel_extraction w st = Inl x)
       \<and> (\<exists>settings'.
            worker_settings self
              (if self_workers self > int (length input_files')
               then int (length input_files') else self_workers self)
              input_files' gcd_files' = Inr settings'
          \<and> settings' \<noteq> []
          \<and> processfiles w self =
              merge_databases w self
                \<lparr>printed = [CountingFiles (self_paths self), StartingPool, PoolJoined],
                 raised = None, csv_file = csv,
                 async_result = Some (map (parallel_extraction w) settings'),
                 tmp_files = concat (map files_of (map (parallel_extraction w) settings')),
                 final_database = None\<rparr>)"
proof -
  let ?W = "if self_workers self > int (length input_files')
            then int (length input_files') else self_workers self"
  have W: "1 \<le> ?W" using assms(2,3) by (cases input_files') auto
  obtain sts where sts: "worker_settings self ?W input_files' gcd_files' = Inr sts"
    and len: "length sts = nat ?W"
    using worker_settings_total[OF W] by blast
  have ne: "sts \<noteq> []" using len W by auto
  have pf: "processfiles w self =
              merge_databases w self
                \<lparr>printed = [CountingFiles (self_paths self), StartingPool, PoolJoined],
                 raised = None, csv_file = csv,
                 async_result = Some (map (parallel_extraction w) sts),
                 tmp_files = concat (map files_of (map (parallel_extraction w) sts)),
                 final_database = None\<rparr>"
    using assms(1,2) sts by (simp add: processfiles_def Let_def)
  have a: "\<forall>st u us s e. u < length (gcd_files st)
            \<and> load_geospatial_data w (gcd_files st ! u) = Inl e
            \<longrightarrow> files_loop w st (u # us) s = Inl (e, written s)"
    by simp
  have b: "\<forall>st u us s e c. u < length (gcd_files st) \<and> u < length (input_files st)
            \<and> load_geospatial_data w (gcd_files st ! u) = Inr c
            \<and> I3File w (input_files st ! u) = Inl e
            \<longrightarrow> files_loop w st (u # us) s = Inl (e, written s)"
    by simp
  have c: "\<forall>st x. files_loop w st [0..<length (input_files st)] initial_wstate = Inl x
            \<longrightarrow> parallel_extraction w st = Inl x"
    by (simp add: parallel_extraction_def)
  show ?thesis using a b c sts ne pf by blast
qed

theorem open_failure_absorbed_witness:
  "find_files failing_open_world (self_paths example_converter) (self_outdir example_converter)
      (self_db_name example_converter) (self_gcd_rescue example_converter) None
    = Inr ([''/data/a.i3.zst'', ''/data/b.i3.zst'', ''/data/c.i3.zst''],
           [''/data/GCD.i3.gz'', ''/data/GCD.i3.gz'', ''/data/GCD.i3.gz''],
           Some (''/out/db/config/i3files.csv'', [''/data/a.i3.zst'', ''/data/b.i3.zst'', ''/data/c.i3.zst'']))
   \<and> 1 \<le> self_workers example_converter
   \<and> I3File failing_open_world ''/data/c.i3.zst'' = Inl OSError
   \<and> files_loop failing_open_world (example_settings\<lparr>input_files := [''/data/c.i3.zst'', ''/data/a.i3.zst'']\<rparr>)
        [0, 1] initial_wstate = Inl (OSError, [])
   \<and> parallel_extraction failing_open_world
        (example_settings\<lparr>input_files := [''/data/c.i3.zst'', ''/data/a.i3.zst'']\<rparr>) = Inl (OSError, [])
   \<and> (\<exists>settings'. length settings' = 2
        \<and> processfiles failing_open_world example_converter =
              merge_databases failing_open_world example_converter
                \<lparr>printed = [CountingFiles [''/data''], StartingPool, PoolJoined],
                 raised = None,
                 csv_file = Some (''/out/db/config/i3files.csv'', [''/data/a.i3.zst'', ''/data/b.i3.zst'', ''/data/c.i3.zst'']),
                 async_result = Some (map (parallel_extraction failing_open_world) settings'),
                 tmp_files = concat (map files_of (map (parallel_extraction failing_open_world) settings')),
                 final_database = None\<rparr>)"
proof -
  let ?fs = "[''/data/a.i3.zst'', ''/data/b.i3.zst'', ''/data/c.i3.zst'']"
  let ?st = "example_settings\<lparr>input_files := [''/data/c.i3.zst'', ''/data/a.i3.zst'']\<rparr>"
  have h1: "find_files failing_open_world (self_paths example_converter) (self_outdir example_converter)
      (self_db_name example_converter) (self_gcd_rescue example_converter) None
    = Inr (?fs, [''/data/GCD.i3.gz'', ''/data/GCD.i3.gz'', ''/data/GCD.i3.gz''],
           Some (''/out/db/config/i3files.csv'', ?fs))"
    using example_find_files by (simp add: example_converter_def)
  have h2: "?fs \<noteq> []" by simp
  have h3: "1 \<le> self_workers example_converter" by (simp add: example_converter_def)
  note main = open_failure_absorbed[OF h1 h2 h3]
  have o: "I3File failing_open_world ''/data/c.i3.zst'' = Inl OSError"
    by (simp add: failing_open_world_def)
  have l: "load_geospatial_data failing_open_world (gcd_files ?st ! 0) = Inr ()"
    by (simp add: failing_open_world_def example_world_def example_settings_def)
  have fl: "files_loop failing_open_world ?st (0 # [1]) initial_wstate = Inl (OSError, written initial_wstate)"
    using main l o by (simp add: example_settings_def)
  have fl': "files_loop failing_open_world ?st [0, 1] initial_wstate = Inl (OSError, [])"
    using fl by (simp add: initial_wstate_def)
  have "[0..<length (input_files ?st)] = [0, 1]" by (simp add: upt_conv_Cons)
  then have pe: "parallel_extraction failing_open_world ?st = Inl (OSError, [])"
    using main fl' by simp
  have sel: "self_workers example_converter = 2" "self_paths example_converter = [''/data'']"
    by (simp_all add: example_converter_def)
  from main obtain settings' where
    ws: "worker_settings example_converter 2 ?fs [''/data/GCD.i3.gz'', ''/data/GCD.i3.gz'', ''/data/GCD.i3.gz''] = Inr settings'"
    and pf: "processfiles failing_open_world example_converter =
              merge_databases failing_open_world example_converter
                \<lparr>printed = [CountingFiles [''/data''], StartingPool, PoolJoined],
                 raised = None,
                 csv_file = Some (''/out/db/config/i3files.csv'', ?fs),
                 async_result = Some (map (parallel_extraction failing_open_world) settings'),
                 tmp_files = concat (map files_of (map (parallel_extraction failing_open_world) settings')),
                 final_database = None\<rparr>"
    by (auto simp: sel)
  have "length settings' = 2" using ws unfolding example_settings_list by auto
  with pf h1 h3 o fl' pe show ?thesis by blast
qed

text \<open>
  C4 as stated fails: the third event file cannot be opened and the second worker raises,
  yet \<^verbatim>\<open>_processfiles\<close> raises nothing, reaches the merge and builds the final database
  from the two files of the first worker.
\<close>

theorem open_failure_absorbed_counterexample:
  "map isl (case async_result (processfiles failing_open_world example_converter) of
              None \<Rightarrow> [] | Some rs \<Rightarrow> rs) = [False, True]
   \<and> printed (processfiles failing_open_world example_converter)
       = [CountingFiles [''/data''], StartingPool, PoolJoined, FoundDbFiles 2 ''/out/db/tmp'']
   \<and> raised (processfiles failing_open_world example_converter) = None
   \<and> map_option (\<lambda>db. map (\<lambda>t. (fst t, length (stored (snd t)))) (tables db))
       (final_database (processfiles failing_open_world example_converter))
       = Some [(''truth'', 4), (''SRTInIcePulses'', 6)]"
proof -
  have fw: "walk failing_open_world = walk example_world" "df_sample failing_open_world = (\<lambda>df. df)"
    "listdir failing_open_world = (\<lambda>fs. fs)"
    "load_geospatial_data failing_open_world = (\<lambda>p. if p = ''/data/GCD.i3.gz'' then Inr () else Inl OSError)"
    by (simp_all add: failing_open_world_def example_world_def)
  have w1: "parallel_extraction failing_open_world
       \<lparr>input_files = [''/data/c.i3.zst''], worker_id = ''1'',
           gcd_files = [''/data/GCD.i3.gz''],
           event_no_list = arange 50000000 99999999, mode = ''oscNext'', pulsemap = ''SRTInIcePulses'',
           max_dict_size = 2, db_name = ''db'', outdir = ''/out''\<rparr> = Inl (OSError, [])"
    by (simp add: parallel_extraction_def initial_wstate_def failing_open_world_def example_world_def)
  have w0: "\<exists>s. parallel_extraction failing_open_world
       \<lparr>input_files = [''/data/a.i3.zst'', ''/data/b.i3.zst''], worker_id = ''0'',
           gcd_files = [''/data/GCD.i3.gz'', ''/data/GCD.i3.gz''],
           event_no_list = arange 0 50000000, mode = ''oscNext'', pulsemap = ''SRTInIcePulses'',
           max_dict_size = 2, db_name = ''db'', outdir = ''/out''\<rparr> = Inr s
      \<and> written s =
         [(''/out/db/tmp/worker-0-0.db'',
           \<lparr>truth_table = Some \<lparr>columns = [''energy'', ''event_no''],
                            rows = [[(''energy'', SOther ''1''), (''event_no'', SInt 0)],
                                    [(''energy'', SOther ''2''), (''event_no'', SInt 1)]]\<rparr>,
            retro_table = None, pulsemap_name = ''SRTInIcePulses'',
            pulsemap_table = Some \<lparr>columns = [''dom_x'', ''event_no''],
                               rows = [[(''dom_x'', SInt 1), (''event_no'', SInt 0)],
                                       [(''dom_x'', SInt 2), (''event_no'', SInt 0)]]\<rparr>\<rparr>),
          (''/out/db/tmp/worker-0-1.db'',
           \<lparr>truth_table = Some \<lparr>columns = [''energy'', ''event_no''],
                            rows = [[(''energy'', SOther ''3''), (''event_no'', SInt 2)],
                                    [(''energy'', SOther ''4''), (''event_no'', SInt 3)]]\<rparr>,
            retro_table = None, pulsemap_name = ''SRTInIcePulses'',
            pulsemap_table = Some \<lparr>columns = [''dom_x'', ''event_no''],
                               rows = [[(''dom_x'', SInt 1), (''event_no'', SInt 2)],
                                       [(''dom_x'', SInt 2), (''event_no'', SInt 2)],
                                       [(''dom_x'', SInt 1), (''event_no'', SInt 3)],
                                       [(''dom_x'', SInt 2), (''event_no'', SInt 3)]]\<rparr>\<rparr>)]"
    by (simp add: worker_eval failing_open_world_def example_world_def)
  then obtain s0 where s0: "parallel_extraction failing_open_world
       \<lparr>input_files = [''/data/a.i3.zst'', ''/data/b.i3.zst''], worker_id = ''0'',
           gcd_files = [''/data/GCD.i3.gz'', ''/data/GCD.i3.gz''],
           event_no_list = arange 0 50000000, mode = ''oscNext'', pulsemap = ''SRTInIcePulses'',
           max_dict_size = 2, db_name = ''db'', outdir = ''/out''\<rparr> = Inr s0"
    and ws0: "written s0 = [(''/out/db/tmp/worker-0-0.db'',
           \<lparr>truth_table = Some \<lparr>columns = [''energy'', ''event_no''],
                            rows = [[(''energy'', SOther ''1''), (''event_no'', SInt 0)],
                                    [(''energy'', SOther ''2''), (''event_no'', SInt 1)]]\<rparr>,
            retro_table = None, pulsemap_name = ''SRTInIcePulses'',
            pulsemap_table = Some \<lparr>columns = [''dom_x'', ''event_no''],
                               rows = [[(''dom_x'', SInt 1), (''event_no'', SInt 0)],
                                       [(''dom_x'', SInt 2), (''event_no'', SInt 0)]]\<rparr>\<rparr>),
          (''/out/db/tmp/worker-0-1.db'',
           \<lparr>truth_table = Some \<lparr>columns = [''energy'', ''event_no''],
                            rows = [[(''energy'', SOther ''3''), (''event_no'', SInt 2)],
                                    [(''energy'', SOther ''4''), (''event_no'', SInt 3)]]\<rparr>,
            retro_table = None, pulsemap_name = ''SRTInIcePulses'',
            pulsemap_table = Some \<lparr>columns = [''dom_x'', ''event_no''],
                               rows = [[(''dom_x'', SInt 1), (''event_no'', SInt 2)],
                                       [(''dom_x'', SInt 2), (''event_no'', SInt 2)],
                                       [(''dom_x'', SInt 1), (''event_no'', SInt 3)],
                                       [(''dom_x'', SInt 2), (''event_no'', SInt 3)]]\<rparr>\<rparr>)]"
    by blast
  have ff: "find_files failing_open_world (self_paths example_converter) (self_outdir example_converter)
      (self_db_name example_converter) (self_gcd_rescue example_converter) None
    = Inr ([''/data/a.i3.zst'', ''/data/b.i3.zst'', ''/data/c.i3.zst''],
           [''/data/GCD.i3.gz'', ''/data/GCD.i3.gz'', ''/data/GCD.i3.gz''],
           Some (''/out/db/config/i3files.csv'', [''/data/a.i3.zst'', ''/data/b.i3.zst'', ''/data/c.i3.zst'']))"
    using example_find_files by (simp add: example_converter_def)
  have pf: "processfiles failing_open_world example_converter =
     merge_databases failing_open_world example_converter
       \<lparr>printed = [CountingFiles [''/data''], StartingPool, PoolJoined], raised = None,
        csv_file = Some (''/out/db/config/i3files.csv'', [''/data/a.i3.zst'', ''/data/b.i3.zst'', ''/data/c.i3.zst'']),
        async_result = Some [Inr s0, Inl (OSError, [])],
        tmp_files = written s0, final_database = None\<rparr>"
  proof -
    have sel: "self_workers example_converter = 2" "self_paths example_converter = [''/data'']"
      by (simp_all add: example_converter_def)
    show ?thesis
      unfolding processfiles_def ff
      by (simp add: sel example_settings_list s0 w1 files_of_def Let_def)
  qed
  have sel: "self_outdir example_converter = ''/out''" "self_db_name example_converter = ''db''"
    "self_pulsemap example_converter = ''SRTInIcePulses''"
    by (simp_all add: example_converter_def)
  show ?thesis
    unfolding pf ws0 by (simp add: merge_eval fw sel)
qed

text \<open>
  C5, where the code fails it. A directory that holds one calibration file and no event
  file, and a folder with one event file: the lists of the directory itself are an empty
  list of event files and a list of one calibration file, the folder adds its event file
  and the rescue calibration, so the two lists differ in length and \<^verbatim>\<open>pairwiseshuffle\<close>
  raises \<^verbatim>\<open>ValueError\<close>. And a directory with two calibration files and three event files
  pairs the first event file with the first calibration file and the others with the
  second.
\<close>

theorem find_i3_files_gcd_without_events:
  "level_lists ''/data'' [''GeoCalibDetectorStatus.i3.gz''] default_extensions ''/rescue/GCD.i3.gz''
     = ([], [''/data/GeoCalibDetectorStatus.i3.gz''])
   \<and> level_lists ''/data/run1'' [''events.i3.zst''] default_extensions ''/rescue/GCD.i3.gz''
     = ([''/data/run1/events.i3.zst''], [''/rescue/GCD.i3.gz''])
   \<and> folders_loop gcd_at_root_world ''/data'' [''run1''] default_extensions ''/rescue/GCD.i3.gz''
       ([], [''/data/GeoCalibDetectorStatus.i3.gz''])
     = Inr ([''/data/run1/events.i3.zst''],
            [''/data/GeoCalibDetectorStatus.i3.gz'', ''/rescue/GCD.i3.gz''])
   \<and> find_i3_files gcd_at_root_world ''/data'' default_extensions ''/rescue/GCD.i3.gz''
     = Inl ValueError
   \<and> level_lists ''/data''
       [''GCD_a.i3.gz'', ''GCD_b.i3.gz'', ''e1.i3.zst'', ''e2.i3.zst'', ''e3.i3.zst'']
       default_extensions ''/rescue/GCD.i3.gz''
     = ([''/data/e1.i3.zst'', ''/data/e2.i3.zst'', ''/data/e3.i3.zst''],
        [''/data/GCD_a.i3.gz'', ''/data/GCD_b.i3.gz'', ''/data/GCD_b.i3.gz''])"
proof -
  note level = level_lists_def default_extensions_def has_extension_def is_i3_def lower_def
    lower_char_def path_join_def
  have root: "level_lists ''/data'' [''GeoCalibDetectorStatus.i3.gz''] default_extensions
                ''/rescue/GCD.i3.gz'' = ([], [''/data/GeoCalibDetectorStatus.i3.gz''])"
    by (simp add: level)
  have folder: "level_lists ''/data/run1'' [''events.i3.zst''] default_extensions
                  ''/rescue/GCD.i3.gz'' = ([''/data/run1/events.i3.zst''], [''/rescue/GCD.i3.gz''])"
    by (simp add: level)
  have walk1: "walk gcd_at_root_world ''/data''
                 = Some (''/data'', [''run1''], [''GeoCalibDetectorStatus.i3.gz''])"
    and walk2: "walk gcd_at_root_world (path_join ''/data'' ''run1'')
                 = Some (''/data/run1'', [], [''events.i3.zst''])"
    by (simp_all add: gcd_at_root_world_def path_join_def)
  have loop: "folders_loop gcd_at_root_world ''/data'' [''run1''] default_extensions
                ''/rescue/GCD.i3.gz'' ([], [''/data/GeoCalibDetectorStatus.i3.gz''])
              = Inr ([''/data/run1/events.i3.zst''],
                     [''/data/GeoCalibDetectorStatus.i3.gz'', ''/rescue/GCD.i3.gz''])"
    by (simp add: walk2 folder)
  have raises: "find_i3_files gcd_at_root_world ''/data'' default_extensions ''/rescue/GCD.i3.gz''
                  = Inl ValueError"
    by (simp add: find_i3_files_def walk1 root walk2 folder pairwiseshuffle_def)
  have two: "level_lists ''/data''
       [''GCD_a.i3.gz'', ''GCD_b.i3.gz'', ''e1.i3.zst'', ''e2.i3.zst'', ''e3.i3.zst'']
       default_extensions ''/rescue/GCD.i3.gz''
     = ([''/data/e1.i3.zst'', ''/data/e2.i3.zst'', ''/data/e3.i3.zst''],
        [''/data/GCD_a.i3.gz'', ''/data/GCD_b.i3.gz'', ''/data/GCD_b.i3.gz''])"
    by (simp add: level numeral_3_eq_3)
  show ?thesis using root folder loop raises two by simp
qed

text \<open>
  C6, as amended. Let the truth header and the pulsemap header be headers that SQLite
  reads as written (not empty, plain names, no two the same for SQLite), the pulsemap
  header with the column \<^verbatim>\<open>event_no\<close>, and likewise the auxiliary header when it has more
  than one column; and let the pulsemap name be a plain name, not kept by SQLite, that is
  not \<^verbatim>\<open>truth\<close> or \<^verbatim>\<open>RetroReco\<close> in any case of the letters. Then on a new database
  \<^verbatim>\<open>_create_empty_tables\<close> succeeds. The truth table has its \<^verbatim>\<open>event_no\<close> column declared
  \<^verbatim>\<open>INTEGER PRIMARY KEY NOT NULL\<close> and every other column \<^verbatim>\<open>FLOAT\<close>; the pulsemap table has
  its \<^verbatim>\<open>event_no\<close> column declared \<^verbatim>\<open>NOT NULL\<close>, with no primary key, and every other
  column \<^verbatim>\<open>FLOAT\<close>; the one index is on the \<^verbatim>\<open>event_no\<close> column of the pulsemap table; and
  the scripts run are the texts of these statements, in this order.
\<close>

theorem final_database_schema:
  assumes "header_ok truth_columns" and "header_ok pulse_map_columns"
    and "''event_no'' \<in> set pulse_map_columns" and "pulsemap_ok pulse_map"
    and "1 < length retro_columns \<longrightarrow> header_ok retro_columns"
  shows "\<exists>db. create_empty_tables new_database pulse_map truth_columns pulse_map_columns
                 retro_columns = Inr db
          \<and> map_of (tables db) ''truth''
              = Some \<lparr>decls = map (\<lambda>c. (c, if c = ''event_no'' then IntegerPrimaryKeyNotNull
                                             else Float)) truth_columns,
                       stored = []\<rparr>
          \<and> map_of (tables db) pulse_map
              = Some \<lparr>decls = map (\<lambda>c. (c, if c = ''event_no'' then NotNull else Float))
                                 pulse_map_columns,
                       stored = []\<rparr>
          \<and> (''event_no'', NotNull)
              \<in> set (map (\<lambda>c. (c, if c = ''event_no'' then NotNull else Float)) pulse_map_columns)
          \<and> indexes db = [(''event_no_'' @ pulse_map, pulse_map, ''event_no'')]
          \<and> executed db =
              [sql_text (CreateTable ''truth''
                 (map (\<lambda>c. (c, if c = ''event_no'' then IntegerPrimaryKeyNotNull else Float))
                    truth_columns))]
              @ (if length retro_columns > 1
                 then [sql_text (CreateTable ''RetroReco''
                         (map (\<lambda>c. (c, if c = ''event_no'' then IntegerPrimaryKeyNotNull else Float))
                            retro_columns))]
                 else [])
              @ [sql_text (CreateTable pulse_map
                   (map (\<lambda>c. (c, if c = ''event_no'' then NotNull else Float)) pulse_map_columns)),
                 sql_text (CreateIndex (''event_no_'' @ pulse_map) pulse_map ''event_no'')]"
proof -
  have f: "column_decl False = (\<lambda>c. if c = ''event_no'' then IntegerPrimaryKeyNotNull else Float)"
    and t: "column_decl True = (\<lambda>c. if c = ''event_no'' then NotNull else Float)"
    by (auto simp: column_decl_def)
  have names: "pulse_map \<noteq> ''truth''" "pulse_map \<noteq> ''RetroReco''"
    using assms(4) by (auto simp: pulsemap_ok_def)
  have ev: "(''event_no'', NotNull)
              \<in> set (map (\<lambda>c. (c, if c = ''event_no'' then NotNull else Float)) pulse_map_columns)"
    using assms(3) by (auto simp: image_iff)
  show ?thesis
    unfolding create_empty_tables_eq[OF assms] f t using names ev by auto
qed

theorem final_database_schema_witness:
  "header_ok [''energy'', ''event_no''] \<and> header_ok [''dom_x'', ''event_no'']
   \<and> pulsemap_ok ''SRTInIcePulses''
   \<and> (\<exists>db. create_empty_tables new_database ''SRTInIcePulses'' [''energy'', ''event_no'']
               [''dom_x'', ''event_no''] [] = Inr db
          \<and> tables db =
              [(''truth'', \<lparr>decls = [(''energy'', Float), (''event_no'', IntegerPrimaryKeyNotNull)],
                            stored = []\<rparr>),
               (''SRTInIcePulses'', \<lparr>decls = [(''dom_x'', Float), (''event_no'', NotNull)],
                                     stored = []\<rparr>)]
          \<and> indexes db = [(''event_no_SRTInIcePulses'', ''SRTInIcePulses'', ''event_no'')]
          \<and> executed db =
              [''PRAGMA foreign_keys=off;\<newline>CREATE TABLE truth (energy FLOAT, event_no INTEGER PRIMARY KEY NOT NULL);\<newline>PRAGMA foreign_keys=on;'',
               ''PRAGMA foreign_keys=off;\<newline>CREATE TABLE SRTInIcePulses (dom_x FLOAT, event_no NOT NULL);\<newline>PRAGMA foreign_keys=on;'',
               ''PRAGMA foreign_keys=off;\<newline>BEGIN TRANSACTION;\<newline>CREATE INDEX event_no_SRTInIcePulses ON SRTInIcePulses (event_no);\<newline>COMMIT TRANSACTION;\<newline>PRAGMA foreign_keys=on;''])"
proof -
  have h: "header_ok [''energy'', ''event_no'']" "header_ok [''dom_x'', ''event_no'']"
    "''event_no'' \<in> set [''dom_x'', ''event_no'']" "pulsemap_ok ''SRTInIcePulses''"
    "1 < length ([]::string list) \<longrightarrow> header_ok []"
    by code_simp+
  have ev: "create_empty_tables new_database ''SRTInIcePulses'' [''energy'', ''event_no'']
               [''dom_x'', ''event_no''] [] =
      Inr \<lparr>executed =
              [''PRAGMA foreign_keys=off;\<newline>CREATE TABLE truth (energy FLOAT, event_no INTEGER PRIMARY KEY NOT NULL);\<newline>PRAGMA foreign_keys=on;'',
               ''PRAGMA foreign_keys=off;\<newline>CREATE TABLE SRTInIcePulses (dom_x FLOAT, event_no NOT NULL);\<newline>PRAGMA foreign_keys=on;'',
               ''PRAGMA foreign_keys=off;\<newline>BEGIN TRANSACTION;\<newline>CREATE INDEX event_no_SRTInIcePulses ON SRTInIcePulses (event_no);\<newline>COMMIT TRANSACTION;\<newline>PRAGMA foreign_keys=on;''],
            tables =
              [(''truth'', \<lparr>decls = [(''energy'', Float), (''event_no'', IntegerPrimaryKeyNotNull)],
                            stored = []\<rparr>),
               (''SRTInIcePulses'', \<lparr>decls = [(''dom_x'', Float), (''event_no'', NotNull)],
                                     stored = []\<rparr>)],
            indexes = [(''event_no_SRTInIcePulses'', ''SRTInIcePulses'', ''event_no'')]\<rparr>"
    by code_simp
  show ?thesis
    using final_database_schema[OF h, of] h by (simp add: ev)
qed

text \<open>
  C6 as stated fails for a schema that SQLite does not read as written: the names are
  pasted into the scripts without quotes. A truth column named \<^verbatim>\<open>order\<close> is a syntax error
  and no table is created; a pulsemap named \<^verbatim>\<open>TRUTH\<close> is refused as the name of the truth
  table, which is then the only table; and for a pulsemap header without the column
  \<^verbatim>\<open>event_no\<close> the index is refused, so that the two tables are left without it.
\<close>

theorem final_database_schema_counterexample:
  "create_empty_tables new_database ''SRTInIcePulses'' [''order'', ''event_no'']
       [''dom_x'', ''event_no''] [] = Inl (OperationalError, new_database)
   \<and> map_sum (\<lambda>(e, db). (e, map fst (tables db), indexes db)) (\<lambda>db. ())
       (create_empty_tables new_database ''TRUTH'' [''energy'', ''event_no'']
          [''dom_x'', ''event_no''] []) = Inl (OperationalError, [''truth''], [])
   \<and> map_sum (\<lambda>(e, db). (e, map fst (tables db), indexes db)) (\<lambda>db. ())
       (create_empty_tables new_database ''SRTInIcePulses'' [''energy'', ''event_no'']
          [''dom_x''] []) = Inl (OperationalError, [''truth'', ''SRTInIcePulses''], [])"
  by code_simp

text \<open>
  C9, where the code fails it. A directory that holds one calibration file and nothing
  else has no input file to be found. Discovery does not return an empty manifest there:
  the list of event files is empty and the list of calibration files is not, so
  \<^verbatim>\<open>pairwiseshuffle\<close> raises \<^verbatim>\<open>ValueError\<close>, which leaves \<^verbatim>\<open>find_files\<close> and \<^verbatim>\<open>_processfiles\<close>
  before the line that no files were found is printed. No pool is started and no final
  database is created.
\<close>

theorem no_files_found_gcd_only:
  "level_lists ''/data'' [''GeoCalibDetectorStatus.i3.gz''] default_extensions
     (self_gcd_rescue example_converter) = ([], [''/data/GeoCalibDetectorStatus.i3.gz''])
   \<and> find_files gcd_only_world (self_paths example_converter) (self_outdir example_converter)
       (self_db_name example_converter) (self_gcd_rescue example_converter) None = Inl ValueError
   \<and> processfiles gcd_only_world example_converter =
       \<lparr>printed = [CountingFiles [''/data'']], raised = Some ValueError, csv_file = None,
        async_result = None, tmp_files = [], final_database = None\<rparr>"
proof -
  have l: "level_lists ''/data'' [''GeoCalibDetectorStatus.i3.gz''] default_extensions
             (self_gcd_rescue example_converter) = ([], [''/data/GeoCalibDetectorStatus.i3.gz''])"
    by (simp add: level_lists_def default_extensions_def has_extension_def is_i3_def lower_def
        lower_char_def path_join_def)
  have w: "walk gcd_only_world ''/data'' = Some (''/data'', [], [''GeoCalibDetectorStatus.i3.gz''])"
    by (simp add: gcd_only_world_def)
  have i: "find_i3_files gcd_only_world ''/data'' default_extensions
             (self_gcd_rescue example_converter) = Inl ValueError"
    by (simp add: find_i3_files_def w l pairwiseshuffle_def)
  have p: "self_paths example_converter = [''/data'']"
    by (simp add: example_converter_def)
  have f: "find_files gcd_only_world (self_paths example_converter) (self_outdir example_converter)
       (self_db_name example_converter) (self_gcd_rescue example_converter) None = Inl ValueError"
    by (simp add: find_files_def p i)
  show ?thesis
    using l f by (simp add: processfiles_def p)
qed

text \<open>
  C10, as amended. Let the RetroReco header pass the test of \<^verbatim>\<open>_create_empty_tables\<close> (more
  than one column) and have the column \<^verbatim>\<open>event_no\<close>, and let SQLite read the three headers
  and the pulsemap name as written. Then the RetroReco table is declared as the truth
  table is: \<^verbatim>\<open>event_no\<close> is \<^verbatim>\<open>INTEGER PRIMARY KEY NOT NULL\<close>, every other column \<^verbatim>\<open>FLOAT\<close>.
  When two auxiliary rows of the temporary files have the same event number, the merge
  into that database raises; and appending to such a table a frame that fits its columns
  and repeats an event number raises \<^verbatim>\<open>IntegrityError\<close>.
\<close>

theorem retro_primary_key:
  assumes "1 < length retro_columns" and "''event_no'' \<in> set retro_columns"
    and "header_ok retro_columns" and "header_ok truth_columns"
    and "header_ok pulse_map_columns" and "''event_no'' \<in> set pulse_map_columns"
    and "pulsemap_ok pulse_map"
    and "\<not> distinct (List.map_filter event_no_of (concat (map (\<lambda>f. retro_rows (snd f)) db_files)))"
  shows "\<exists>db t. create_empty_tables new_database pulse_map truth_columns pulse_map_columns
                   retro_columns = Inr db
          \<and> find_table db ''RetroReco'' = Some t
          \<and> decls t = map (\<lambda>c. (c, if c = ''event_no'' then IntegerPrimaryKeyNotNull else Float))
                         retro_columns
          \<and> (''event_no'', IntegerPrimaryKeyNotNull) \<in> set (decls t)
          \<and> (\<exists>e db'. merge_temporary_databases db db_files pulse_map = Inl (e, db'))
          \<and> (\<forall>db2 t2 df. find_table db2 ''RetroReco'' = Some t2 \<and> decls t2 = decls t
                \<and> set (map lower (columns df)) \<subseteq> set (map lower retro_columns)
                \<and> \<not> distinct (List.map_filter event_no_of (stored t2 @ rows df))
                \<longrightarrow> to_sql db2 ''RetroReco'' df = Inl (IntegrityError, db2))"
proof -
  let ?ds = "map (\<lambda>c. (c, if c = ''event_no'' then IntegerPrimaryKeyNotNull else Float)) retro_columns"
  let ?t = "\<lparr>decls = ?ds, stored = []\<rparr>"
  have f: "column_decl False = (\<lambda>c. if c = ''event_no'' then IntegerPrimaryKeyNotNull else Float)"
    by (auto simp: column_decl_def)
  have pm: "lower pulse_map \<noteq> ''retroreco''" using assms(7) by (simp add: pulsemap_ok_def)
  have rc: "1 < length retro_columns \<longrightarrow> header_ok retro_columns" using assms(3) by simp
  note ce = create_empty_tables_eq[OF assms(4,5,6,7) rc]
  obtain db where db: "create_empty_tables new_database pulse_map truth_columns pulse_map_columns
                   retro_columns = Inr db"
    and tb: "find_table db ''RetroReco'' = Some ?t"
    unfolding ce using assms(1) pm by (simp add: f find_table_def)
  have pk: "(''event_no'', IntegerPrimaryKeyNotNull) \<in> set ?ds"
    using assms(2) by (auto simp: image_iff)
  have fails: "\<exists>e db'. merge_temporary_databases db db_files pulse_map = Inl (e, db')"
    by (rule merge_fails_on_duplicates[OF tb _ pm])
      (use pk assms(8) in \<open>simp_all add: List.map_filter_def\<close>)
  have names: "map (lower \<circ> fst) ?ds = map lower retro_columns" by (simp add: comp_def)
  have ie: "to_sql db2 ''RetroReco'' df = Inl (IntegrityError, db2)"
    if "find_table db2 ''RetroReco'' = Some t2" "decls t2 = ?ds"
      "set (map lower (columns df)) \<subseteq> set (map lower retro_columns)"
      "\<not> distinct (List.map_filter event_no_of (stored t2 @ rows df))"
    for db2 t2 df
  proof (rule to_sql_primary_key[OF that(1)])
    show "(''event_no'', IntegerPrimaryKeyNotNull) \<in> set (decls t2)" using that(2) pk by simp
    show "set (map lower (columns df)) \<subseteq> set (map (lower \<circ> fst) (decls t2))"
      unfolding that(2) names using that(3) .
    show "\<not> distinct (List.map_filter event_no_of (stored t2 @ rows df))" using that(4) .
  qed
  show ?thesis
    using db tb pk fails ie by (intro exI[of _ db] exI[of _ ?t]) auto
qed

theorem retro_primary_key_witness:
  "1 < length [''azimuth_retro'', ''event_no''] \<and> ''event_no'' \<in> set [''azimuth_retro'', ''event_no'']
   \<and> header_ok [''azimuth_retro'', ''event_no''] \<and> header_ok [''energy'', ''event_no'']
   \<and> header_ok [''dom_x'', ''event_no''] \<and> pulsemap_ok ''SRTInIcePulses''
   \<and> List.map_filter event_no_of
        (concat (map (\<lambda>f. retro_rows (snd f)) (files_of (parallel_extraction retro_world retro_settings))))
       = [10, 10]
   \<and> (\<exists>db. create_empty_tables new_database ''SRTInIcePulses'' [''energy'', ''event_no'']
               [''dom_x'', ''event_no''] [''azimuth_retro'', ''event_no''] = Inr db
         \<and> map_option decls (find_table db ''RetroReco'')
             = Some [(''azimuth_retro'', Float), (''event_no'', IntegerPrimaryKeyNotNull)]
         \<and> isl (merge_temporary_databases db
                  (files_of (parallel_extraction retro_world retro_settings)) ''SRTInIcePulses''))"
proof -
  let ?fs = "files_of (parallel_extraction retro_world retro_settings)"
  have h1: "1 < length [''azimuth_retro'', ''event_no'']"
    and h2: "''event_no'' \<in> set [''azimuth_retro'', ''event_no'']"
    and h6: "''event_no'' \<in> set [''dom_x'', ''event_no'']"
    by simp_all
  have h3: "header_ok [''azimuth_retro'', ''event_no'']"
    and h4: "header_ok [''energy'', ''event_no'']"
    and h5: "header_ok [''dom_x'', ''event_no'']"
    and h7: "pulsemap_ok ''SRTInIcePulses''"
    by code_simp+
  have ids: "List.map_filter event_no_of (concat (map (\<lambda>f. retro_rows (snd f)) ?fs)) = [10, 10]"
    by (simp add: example_retro_files retro_rows_def List.map_filter_def event_no_of_def)
  have h8: "\<not> distinct (List.map_filter event_no_of (concat (map (\<lambda>f. retro_rows (snd f)) ?fs)))"
    by (simp add: ids)
  from retro_primary_key[OF h1 h2 h3 h4 h5 h6 h7 h8]
  show ?thesis using h1 h2 h3 h4 h5 h7 ids by auto
qed

text \<open>
  C10 as stated fails for an auxiliary header of one column, which the scan finds and the
  test of \<^verbatim>\<open>_create_empty_tables\<close> (more than one column) drops: the table is then created
  by pandas during the merge, without a key, and the merge returns with the two rows of the
  same event number stored. It fails too for a header that SQLite does not read as
  written: with an auxiliary column named \<^verbatim>\<open>order\<close> the creation raises and the truth table
  is the only table.
\<close>

theorem retro_primary_key_counterexample:
  "map (\<lambda>f. (map_option columns (retro_table (snd f)), map event_no_of (retro_rows (snd f))))
       (files_of (parallel_extraction bare_retro_world retro_settings))
     = [(Some [''event_no''], [Some 10, Some 10])]
   \<and> extract_column_names (files_of (parallel_extraction bare_retro_world retro_settings))
        ''SRTInIcePulses''
       = Inr ([''energy'', ''event_no''], [''dom_x'', ''event_no''], [''event_no''])
   \<and> raised (merge_databases example_world example_converter
                (run_with (files_of (parallel_extraction bare_retro_world retro_settings)))) = None
   \<and> map_option (\<lambda>db. find_table db ''RetroReco'')
        (final_database (merge_databases example_world example_converter
           (run_with (files_of (parallel_extraction bare_retro_world retro_settings)))))
       = Some (Some \<lparr>decls = [(''event_no'', Inferred)],
                      stored = [[(''event_no'', SInt 10)], [(''event_no'', SInt 10)]]\<rparr>)
   \<and> map_sum (\<lambda>(e, db). (e, map fst (tables db))) (\<lambda>db. ())
        (create_empty_tables new_database ''SRTInIcePulses'' [''energy'', ''event_no'']
           [''dom_x'', ''event_no''] [''order'', ''event_no''])
       = Inl (OperationalError, [''truth''])"
  by code_simp


end
